theory Spec2Isabelle
  imports Complex_Main
begin

section \<open>Python values used by the royalty calculator\<close>

subsection \<open>Strings\<close>

text \<open>
  A Python \<open>str\<close> is modelled as a \<open>string\<close> of ASCII characters. \<open>str.lower\<close> maps
  \<open>A\<close>..\<open>Z\<close> to \<open>a\<close>..\<open>z\<close> and leaves every other character alone; \<open>str.strip\<close> removes
  the ASCII whitespace characters (codes 9-13 and 28-32) from both ends; \<open>a in b\<close> on two
  strings is the contiguous-substring test.
\<close>

definition lower_char :: "char \<Rightarrow> char" where
  "lower_char c =
     (case map_of (zip ''ABCDEFGHIJKLMNOPQRSTUVWXYZ'' ''abcdefghijklmnopqrstuvwxyz'') c of
        Some d \<Rightarrow> d
      | None \<Rightarrow> c)"

definition py_lower :: "string \<Rightarrow> string" where
  "py_lower s = map lower_char s"

definition py_isspace :: "char \<Rightarrow> bool" where
  "py_isspace c = (let n = (of_char c :: nat) in (9 \<le> n \<and> n \<le> 13) \<or> (28 \<le> n \<and> n \<le> 32))"

definition py_strip :: "string \<Rightarrow> string" where
  "py_strip s = rev (dropWhile py_isspace (rev (dropWhile py_isspace s)))"

fun starts_with :: "string \<Rightarrow> string \<Rightarrow> bool" where
  "starts_with [] s = True"
| "starts_with (p # ps) [] = False"
| "starts_with (p # ps) (c # cs) = (p = c \<and> starts_with ps cs)"

fun py_in :: "string \<Rightarrow> string \<Rightarrow> bool" where
  "py_in sub [] = (sub = [])"
| "py_in sub (c # cs) = (starts_with sub (c # cs) \<or> py_in sub cs)"

text \<open>
  \<open>re.sub(r"\(.*?\)", "", s)\<close>: scanning from the left, an opening parenthesis together with
  the shortest following text up to a closing parenthesis is deleted; \<open>.\<close> does not match a
  newline, so a parenthesis whose nearest closing partner lies beyond a line break stays.
\<close>

fun close_paren :: "string \<Rightarrow> string option" where
  "close_paren [] = None"
| "close_paren (c # cs) =
     (if c = CHR '')'' then Some cs
      else if c = CHR 0x0A then None
      else close_paren cs)"

function re_sub_parens :: "string \<Rightarrow> string" where
  "re_sub_parens [] = []"
| "re_sub_parens (c # cs) =
     (if c = CHR ''(''
      then (case close_paren cs of
              Some r \<Rightarrow> re_sub_parens r
            | None \<Rightarrow> c # re_sub_parens cs)
      else c # re_sub_parens cs)"
  by pat_completeness auto
termination
proof -
  have shorter: "length r < length cs" if "close_paren cs = Some r" for cs r
    using that by (induction cs) (auto split: if_splits)
  show ?thesis
    by (relation "measure length") (auto dest: shorter)
qed

text \<open>Truthiness of an optional string: \<open>None\<close> and the empty string are falsy.\<close>

fun truthy :: "string option \<Rightarrow> bool" where
  "truthy None = False"
| "truthy (Some s) = (s \<noteq> [])"

subsection \<open>Floats\<close>

text \<open>
  A Python \<open>float\<close> is an IEEE-754 binary64 number: a finite value (kept as the exact rational
  it denotes), an infinity or NaN. The two zeros are not distinguished; they are equal under
  \<open>==\<close> and nothing below looks at the sign of a zero. \<open>fl\<close> rounds an exact rational to
  the nearest binary64 value, ties to even, with gradual underflow and overflow to infinity.
\<close>

datatype pyfloat = Finite rat | PInf | NInf | NaN

definition pow2 :: "int \<Rightarrow> rat" where
  "pow2 e = (if 0 \<le> e then 2 ^ nat e else 1 / 2 ^ nat (- e))"

function bit_length :: "nat \<Rightarrow> nat" where
  "bit_length n = (if n = 0 then 0 else Suc (bit_length (n div 2)))"
  by pat_completeness auto
termination
  by (relation "measure id") auto

declare bit_length.simps [simp del]

text \<open>
  The exponent of the leading binary digit of a positive rational \<open>x\<close>: the \<open>e\<close> with
  \<open>2 ^ e \<le> x < 2 ^ (e + 1)\<close>, read off the bit length of the integer part of \<open>x\<close> when
  \<open>1 \<le> x\<close>, and off that of \<open>1 / x\<close> otherwise.
\<close>

definition floor_log2 :: "rat \<Rightarrow> int" where
  "floor_log2 x =
     (if 1 \<le> x then int (bit_length (nat \<lfloor>x\<rfloor>)) - 1
      else let k = int (bit_length (nat \<lfloor>1 / x\<rfloor>)) - 1
           in if 1 / x = pow2 k then - k else - k - 1)"

definition round_half_even :: "rat \<Rightarrow> int" where
  "round_half_even x =
     (let f = \<lfloor>x\<rfloor>; r = x - of_int f
      in if r < 1 / 2 then f
         else if 1 / 2 < r then f + 1
         else if even f then f else f + 1)"

definition fl :: "rat \<Rightarrow> pyfloat" where
  "fl x =
     (if x = 0 then Finite 0
      else let e = max (floor_log2 \<bar>x\<bar>) (- 1022);
               q = pow2 (e - 52);
               r = of_int (round_half_even (x / q)) * q
           in if pow2 1024 \<le> \<bar>r\<bar> then (if 0 < x then PInf else NInf) else Finite r)"

fun float_neg :: "pyfloat \<Rightarrow> pyfloat" where
  "float_neg (Finite x) = Finite (- x)"
| "float_neg PInf = NInf"
| "float_neg NInf = PInf"
| "float_neg NaN = NaN"

text \<open>\<open>x * y\<close> on floats.\<close>

fun float_mul :: "pyfloat \<Rightarrow> pyfloat \<Rightarrow> pyfloat" where
  "float_mul (Finite x) (Finite y) = fl (x * y)"
| "float_mul NaN y = NaN"
| "float_mul x NaN = NaN"
| "float_mul (Finite x) y = (if x = 0 then NaN else if 0 < x then y else float_neg y)"
| "float_mul x (Finite y) = (if y = 0 then NaN else if 0 < y then x else float_neg x)"
| "float_mul x y = (if x = y then PInf else NInf)"

text \<open>\<open>x + y\<close> on floats.\<close>

fun float_add :: "pyfloat \<Rightarrow> pyfloat \<Rightarrow> pyfloat" where
  "float_add (Finite x) (Finite y) = fl (x + y)"
| "float_add NaN y = NaN"
| "float_add x NaN = NaN"
| "float_add (Finite x) y = y"
| "float_add x (Finite y) = x"
| "float_add x y = (if x = y then x else NaN)"

text \<open>\<open>x / 100.0\<close> on floats.\<close>

fun float_div_100 :: "pyfloat \<Rightarrow> pyfloat" where
  "float_div_100 (Finite x) = fl (x / 100)"
| "float_div_100 x = x"

text \<open>
  \<open>round(x, 2)\<close> on a float: the exact value is rounded to two decimal places, ties to even,
  and the decimal result is converted back to the nearest float; infinities and NaN round to
  themselves.
\<close>

fun py_round2 :: "pyfloat \<Rightarrow> pyfloat" where
  "py_round2 (Finite x) = fl (of_int (round_half_even (x * 100)) / 100)"
| "py_round2 x = x"

text \<open>\<open>x == y\<close> on floats: NaN is equal to nothing, itself included.\<close>

definition float_eq :: "pyfloat \<Rightarrow> pyfloat \<Rightarrow> bool" where
  "float_eq x y = (x \<noteq> NaN \<and> x = y)"

section \<open>Payment records (royalty_calculator.py)\<close>

text \<open>
  \<open>RoyaltyPayment\<close>: the text fields are copied from the work and the share as they are.
\<close>

record RoyaltyPayment =
  song_title :: "string option"
  party_name :: "string option"
  role :: string
  royalty_type :: "string option"
  percentage :: pyfloat
  total_royalty :: pyfloat
  amount_to_pay :: pyfloat

section \<open>Contract data (contract_parser.py)\<close>

text \<open>
  The dataclasses of the contract parser. Python does not enforce the annotations, and
  the merger guards against missing text (\<open>if not name\<close>, \<open>w.title or ""\<close>), so the text
  fields it reads may hold \<open>None\<close>. \<open>percentage\<close> is a float, so \<open>float(r.percentage)\<close>
  is the value itself.
\<close>

record Party =
  name :: "string option"
  role :: string
  additional_info :: "string option"

record Work =
  title :: "string option"
  work_type :: string
  additional_info :: "string option"

record RoyaltyShare =
  party_name :: "string option"
  royalty_type :: "string option"
  percentage :: pyfloat
  terms :: "string option"

record ContractData =
  parties :: "Party list"
  works :: "Work list"
  royalty_shares :: "RoyaltyShare list"
  contract_summary :: "string option"
  raw_text :: "string option"

text \<open>
  The dataclass constructors with their default arguments: \<open>Party(name, role)\<close>,
  \<open>Work(title, work_type)\<close>, \<open>RoyaltyShare(party_name, royalty_type, percentage)\<close> and
  \<open>ContractData(parties, works, royalty_shares)\<close>.
\<close>

definition new_Party :: "string \<Rightarrow> string \<Rightarrow> Party" where
  "new_Party n r = \<lparr>name = Some n, role = r, additional_info = None\<rparr>"

definition new_Work :: "string \<Rightarrow> string \<Rightarrow> Work" where
  "new_Work t k = \<lparr>title = Some t, work_type = k, additional_info = None\<rparr>"

definition new_RoyaltyShare :: "string \<Rightarrow> string \<Rightarrow> pyfloat \<Rightarrow> RoyaltyShare" where
  "new_RoyaltyShare n t p =
     \<lparr>party_name = Some n, royalty_type = Some t, percentage = p, terms = None\<rparr>"

definition new_ContractData ::
  "Party list \<Rightarrow> Work list \<Rightarrow> RoyaltyShare list \<Rightarrow> ContractData" where
  "new_ContractData ps ws rs =
     \<lparr>parties = ps, works = ws, royalty_shares = rs, contract_summary = None,
      raw_text = None\<rparr>"

datatype py_error =
    NameError
  | AttributeError
  | TypeError
  | IndexError
  | ValueError string
  | Exception py_error

section \<open>Contract merger (RoyaltyCalculator.merge_contracts)\<close>

text \<open>
  \<open>normalize_name\<close> calls \<open>re.sub\<close>, but royalty_calculator.py never imports \<open>re\<close>
  (its imports are lines 15-27; \<open>re\<close> is imported by contract_parser.py only, and the
  \<open>from ... import\<close> of line 27 does not bring it along). Looking up the global name
  \<open>re\<close> therefore raises \<open>NameError\<close> as soon as a non-empty name is normalised. The flag
  \<open>re_bound\<close> says whether the module's global \<open>re\<close> is bound to the regular-expression
  module; in the module as written it is \<open>False\<close>.
\<close>

definition normalize_name :: "bool \<Rightarrow> string option \<Rightarrow> py_error + string" where
  "normalize_name re_bound nm =
     (case nm of
        None \<Rightarrow> Inr []
      | Some s \<Rightarrow>
          if s = [] then Inr []
          else if re_bound then Inr (py_lower (py_strip (re_sub_parens s)))
          else Inl NameError)"

type_synonym share_key = "string \<times> string \<times> pyfloat"

text \<open>
  Two key tuples are equal when their components are equal under \<open>==\<close>; the key tuples are
  built afresh for every share, so a NaN component is never matched. \<open>key in seen_shares\<close>
  looks for an equal key.
\<close>

definition share_key_eq :: "share_key \<Rightarrow> share_key \<Rightarrow> bool" where
  "share_key_eq k k' =
     (fst k = fst k' \<and> fst (snd k) = fst (snd k') \<and> float_eq (snd (snd k)) (snd (snd k')))"

definition key_in :: "share_key \<Rightarrow> share_key set \<Rightarrow> bool" where
  "key_in k seen = (\<exists>k' \<in> seen. share_key_eq k k')"

record merge_state =
  merged_parties :: "Party list"
  merged_works :: "Work list"
  merged_royalty_shares :: "RoyaltyShare list"
  summaries :: "string list"
  seen_parties :: "string set"
  seen_works :: "string set"
  seen_shares :: "share_key set"

definition merge_init :: merge_state where
  "merge_init =
     \<lparr>merged_parties = [], merged_works = [], merged_royalty_shares = [], summaries = [],
      seen_parties = {}, seen_works = {}, seen_shares = {}\<rparr>"

text \<open>The loop \<open>for p in contract.parties\<close>.\<close>

fun merge_parties :: "bool \<Rightarrow> Party list \<Rightarrow> merge_state \<Rightarrow> py_error + merge_state" where
  "merge_parties re_bound [] st = Inr st"
| "merge_parties re_bound (p # ps) st =
     (case normalize_name re_bound (name p) of
        Inl e \<Rightarrow> Inl e
      | Inr norm_name \<Rightarrow>
          if norm_name \<noteq> [] \<and> norm_name \<notin> seen_parties st
          then merge_parties re_bound ps
                 (st\<lparr>merged_parties := merged_parties st @ [p],
                     seen_parties := insert norm_name (seen_parties st)\<rparr>)
          else merge_parties re_bound ps st)"

text \<open>The loop \<open>for w in contract.works\<close>; nothing in it can raise.\<close>

definition work_key :: "Work \<Rightarrow> string" where
  "work_key w = py_lower (py_strip (case title w of None \<Rightarrow> [] | Some t \<Rightarrow> t))"

fun merge_works :: "Work list \<Rightarrow> merge_state \<Rightarrow> merge_state" where
  "merge_works [] st = st"
| "merge_works (w # ws) st =
     (let norm_title = work_key w
      in if norm_title \<noteq> [] \<and> norm_title \<notin> seen_works st
         then merge_works ws
                (st\<lparr>merged_works := merged_works st @ [w],
                    seen_works := insert norm_title (seen_works st)\<rparr>)
         else merge_works ws st)"

text \<open>
  The loop \<open>for r in contract.royalty_shares\<close>. The key tuple is evaluated left to right:
  \<open>normalize_name(r.party_name)\<close>, then \<open>r.royalty_type.lower().strip()\<close> (an
  \<open>AttributeError\<close> when the type is \<open>None\<close>), then \<open>round(float(r.percentage), 2)\<close>.
\<close>

definition share_key_of :: "bool \<Rightarrow> RoyaltyShare \<Rightarrow> py_error + share_key" where
  "share_key_of re_bound r =
     (case normalize_name re_bound (party_name r) of
        Inl e \<Rightarrow> Inl e
      | Inr n \<Rightarrow>
          (case royalty_type r of
             None \<Rightarrow> Inl AttributeError
           | Some t \<Rightarrow> Inr (n, py_strip (py_lower t), py_round2 (percentage r))))"

fun merge_shares :: "bool \<Rightarrow> RoyaltyShare list \<Rightarrow> merge_state \<Rightarrow> py_error + merge_state" where
  "merge_shares re_bound [] st = Inr st"
| "merge_shares re_bound (r # rs) st =
     (case share_key_of re_bound r of
        Inl e \<Rightarrow> Inl e
      | Inr key \<Rightarrow>
          if \<not> key_in key (seen_shares st)
          then merge_shares re_bound rs
                 (st\<lparr>merged_royalty_shares := merged_royalty_shares st @ [r],
                     seen_shares := insert key (seen_shares st)\<rparr>)
          else merge_shares re_bound rs st)"

text \<open>The outer loop \<open>for contract in contracts\<close>.\<close>

fun merge_loop :: "bool \<Rightarrow> ContractData list \<Rightarrow> merge_state \<Rightarrow> py_error + merge_state" where
  "merge_loop re_bound [] st = Inr st"
| "merge_loop re_bound (c # cs) st =
     (let st1 = st\<lparr>summaries := summaries st @
                     [case contract_summary c of None \<Rightarrow> [] | Some s \<Rightarrow> s]\<rparr>
      in case merge_parties re_bound (parties c) st1 of
           Inl e \<Rightarrow> Inl e
         | Inr st2 \<Rightarrow>
             (case merge_shares re_bound (royalty_shares c) (merge_works (works c) st2) of
                Inl e \<Rightarrow> Inl e
              | Inr st3 \<Rightarrow> merge_loop re_bound cs st3))"

text \<open>\<open>"\n".join(xs)\<close>.\<close>

fun join_lines :: "string list \<Rightarrow> string" where
  "join_lines [] = []"
| "join_lines [x] = x"
| "join_lines (x # y # ys) = x @ CHR 0x0A # join_lines (y # ys)"

definition merge_contracts_env :: "bool \<Rightarrow> ContractData list \<Rightarrow> py_error + ContractData" where
  "merge_contracts_env re_bound contracts =
     (case merge_loop re_bound contracts merge_init of
        Inl e \<Rightarrow> Inl e
      | Inr st \<Rightarrow>
          Inr \<lparr>parties = merged_parties st,
               works = merged_works st,
               royalty_shares = merged_royalty_shares st,
               contract_summary = Some (join_lines (filter (\<lambda>s. py_strip s \<noteq> []) (summaries st))),
               raw_text = None\<rparr>)"

text \<open>\<open>merge_contracts\<close> as the module runs it: \<open>re\<close> is not bound.\<close>

definition merge_contracts :: "ContractData list \<Rightarrow> py_error + ContractData" where
  "merge_contracts contracts = merge_contracts_env False contracts"

section \<open>Song matcher (RoyaltyCalculator._find_matching_song)\<close>

text \<open>
  \<open>song_totals\<close> is a dict; iterating it visits the entries in insertion order, so it is
  an association list.
\<close>

type_synonym song_totals = "(string \<times> pyfloat) list"

text \<open>The first loop: \<open>title.lower().strip() == song_title_lower\<close>.\<close>

fun exact_match :: "string \<Rightarrow> song_totals \<Rightarrow> (string \<times> pyfloat) option" where
  "exact_match song_title_lower [] = None"
| "exact_match song_title_lower ((t, amount) # rest) =
     (if py_strip (py_lower t) = song_title_lower then Some (t, amount)
      else exact_match song_title_lower rest)"

text \<open>
  The second loop:
  \<open>song_title_lower in title.lower() or title.lower() in song_title_lower\<close>.
\<close>

fun partial_match :: "string \<Rightarrow> song_totals \<Rightarrow> (string \<times> pyfloat) option" where
  "partial_match song_title_lower [] = None"
| "partial_match song_title_lower ((t, amount) # rest) =
     (if py_in song_title_lower (py_lower t) \<or> py_in (py_lower t) song_title_lower
      then Some (t, amount)
      else partial_match song_title_lower rest)"

definition find_matching_song :: "string \<Rightarrow> song_totals \<Rightarrow> string option \<times> pyfloat" where
  "find_matching_song work_title totals =
     (let song_title_lower = py_strip (py_lower work_title)
      in case exact_match song_title_lower totals of
           Some (t, amount) \<Rightarrow> (Some t, amount)
         | None \<Rightarrow>
             (case partial_match song_title_lower totals of
                Some (t, amount) \<Rightarrow> (Some t, amount)
              | None \<Rightarrow> (None, Finite 0)))"

section \<open>Statement ingestor (RoyaltyCalculator.read_royalty_statement)\<close>

subsection \<open>Column detection\<close>

definition title_variations :: "string list" where
  "title_variations =
     [''release title'', ''title'', ''song title'', ''track title'',
      ''song name'', ''track name'', ''release name'', ''track'']"

definition no_title_column :: py_error where
  "no_title_column =
     ValueError ''Could not auto-detect title column. Please specify title_column parameter.''"

fun find_title_column :: "string list \<Rightarrow> py_error + string" where
  "find_title_column [] = Inl no_title_column"
| "find_title_column (header # headers) =
     (if list_ex (\<lambda>var. py_in var header) title_variations then Inr header
      else find_title_column headers)"

definition priority_variations :: "string list" where
  "priority_variations =
     [''net payable'', ''net payment'', ''total payable'', ''net revenue'', ''net amount'']"

definition general_variations :: "string list" where
  "general_variations = [''payable'', ''amount'', ''earnings'', ''payment'']"

definition no_payable_column :: py_error where
  "no_payable_column =
     ValueError ''Could not auto-detect payable column. Please specify payable_column parameter.''"

text \<open>The first pair of loops of \<open>_find_payable_column\<close>.\<close>

fun priority_pass :: "string list \<Rightarrow> string option" where
  "priority_pass [] = None"
| "priority_pass (header # headers) =
     (if list_ex (\<lambda>var. var = header \<or> py_in var header) priority_variations
      then Some header
      else priority_pass headers)"

text \<open>The second pair of loops.\<close>

fun general_pass :: "string list \<Rightarrow> string option" where
  "general_pass [] = None"
| "general_pass (header # headers) =
     (if list_ex (\<lambda>var. py_in var header \<and> \<not> py_in ''withheld'' header
                        \<and> \<not> py_in ''deduction'' header \<and> \<not> py_in ''fee'' header)
           general_variations
      then Some header
      else general_pass headers)"

definition find_payable_column :: "string list \<Rightarrow> py_error + string" where
  "find_payable_column headers =
     (case priority_pass headers of
        Some header \<Rightarrow> Inr header
      | None \<Rightarrow>
          (case general_pass headers of
             Some header \<Rightarrow> Inr header
           | None \<Rightarrow> Inl no_payable_column))"

subsection \<open>Cells\<close>

text \<open>
  What openpyxl hands over for a cell: \<open>None\<close> for an empty cell, a string for a text
  cell, a number for a numeric cell. The code looks at a cell through its truth value,
  \<open>str(v)\<close>, \<open>v is not None\<close> and \<open>float(v)\<close>. A numeric cell is given by its value as
  a float together with the text \<open>str\<close> renders for it (\<open>1000\<close> for the integer,
  \<open>1000.0\<close> for the float).
\<close>

datatype cell = CNone | CStr string | CNum pyfloat string

fun cell_truthy :: "cell \<Rightarrow> bool" where
  "cell_truthy CNone = False"
| "cell_truthy (CStr s) = (s \<noteq> [])"
| "cell_truthy (CNum x t) = (x \<noteq> Finite 0)"

fun cell_str :: "cell \<Rightarrow> string" where
  "cell_str CNone = ''None''"
| "cell_str (CStr s) = s"
| "cell_str (CNum x t) = t"

text \<open>
  \<open>float(s)\<close> on a string: surrounding whitespace is ignored; an underscore may stand
  between two digits; the text is an optional sign followed by \<open>inf\<close>, \<open>infinity\<close>,
  \<open>nan\<close> (in any case) or by a decimal numeral with an optional fraction and an optional
  exponent; the value is rounded to the nearest float. Anything else is a \<open>ValueError\<close>.
\<close>

definition is_digit :: "char \<Rightarrow> bool" where
  "is_digit c = (c \<in> set ''0123456789'')"

definition digit_val :: "char \<Rightarrow> nat" where
  "digit_val c = (of_char c :: nat) - 48"

definition digits_val :: "string \<Rightarrow> nat" where
  "digits_val ds = foldl (\<lambda>n c. 10 * n + digit_val c) 0 ds"

text \<open>Underscores are dropped; each must have a digit before it and a digit after it.\<close>

fun drop_underscores :: "char option \<Rightarrow> string \<Rightarrow> string option" where
  "drop_underscores prev [] = (if prev = Some (CHR ''_'') then None else Some [])"
| "drop_underscores prev (c # cs) =
     (if c = CHR ''_''
      then (case prev of
              None \<Rightarrow> None
            | Some p \<Rightarrow> if is_digit p then drop_underscores (Some c) cs else None)
      else if prev = Some (CHR ''_'') \<and> \<not> is_digit c then None
      else map_option ((#) c) (drop_underscores (Some c) cs))"

text \<open>The exponent part: empty, or \<open>e\<close>, an optional sign and at least one digit.\<close>

definition parse_exponent :: "string \<Rightarrow> int option" where
  "parse_exponent s =
     (case s of
        [] \<Rightarrow> Some 0
      | c # cs \<Rightarrow>
          if c = CHR ''e'' \<or> c = CHR ''E''
          then (let (neg, ds) = (case cs of
                                   [] \<Rightarrow> (False, [])
                                 | d # ds' \<Rightarrow> if d = CHR ''-'' then (True, ds')
                                              else if d = CHR ''+'' then (False, ds')
                                              else (False, cs))
                in if ds \<noteq> [] \<and> list_all is_digit ds
                   then Some (if neg then - int (digits_val ds) else int (digits_val ds))
                   else None)
          else None)"

definition parse_decimal :: "string \<Rightarrow> rat option" where
  "parse_decimal s =
     (let ip = takeWhile is_digit s;
          r1 = dropWhile is_digit s;
          (fp, r2) = (case r1 of
                        [] \<Rightarrow> ([], [])
                      | c # cs \<Rightarrow> if c = CHR ''.''
                                  then (takeWhile is_digit cs, dropWhile is_digit cs)
                                  else ([], r1))
      in if ip = [] \<and> fp = [] then None
         else (case parse_exponent r2 of
                 None \<Rightarrow> None
               | Some e \<Rightarrow>
                   Some (of_nat (digits_val (ip @ fp)) *
                         (let k = e - int (length fp)
                          in if 0 \<le> k then 10 ^ nat k else 1 / 10 ^ nat (- k)))))"

definition float_of_string :: "string \<Rightarrow> pyfloat option" where
  "float_of_string s =
     (case drop_underscores None s of
        None \<Rightarrow> None
      | Some s1 \<Rightarrow>
          (let s2 = py_strip s1;
               (neg, body) = (case s2 of
                                [] \<Rightarrow> (False, [])
                              | c # cs \<Rightarrow> if c = CHR ''-'' then (True, cs)
                                          else if c = CHR ''+'' then (False, cs)
                                          else (False, s2))
           in if py_lower body = ''inf'' \<or> py_lower body = ''infinity''
              then Some (if neg then NInf else PInf)
              else if py_lower body = ''nan'' then Some NaN
              else (case parse_decimal body of
                      None \<Rightarrow> None
                    | Some v \<Rightarrow> Some (fl (if neg then - v else v)))))"

fun cell_float :: "cell \<Rightarrow> py_error + pyfloat" where
  "cell_float CNone = Inl TypeError"
| "cell_float (CStr s) =
     (case float_of_string s of
        None \<Rightarrow> Inl (ValueError ''could not convert string to float'')
      | Some x \<Rightarrow> Inr x)"
| "cell_float (CNum x t) = Inr x"

subsection \<open>Reading the statement\<close>

text \<open>
  The active sheet is a list of rows of cells; the first row is \<open>sheet[1]\<close>, the rest is
  what \<open>iter_rows(min_row=2, values_only=True)\<close> yields. Reading a cell beyond the end
  of a row is an \<open>IndexError\<close>.
\<close>

type_synonym sheet = "cell list list"

definition header_cells :: "sheet \<Rightarrow> cell list" where
  "header_cells sh = (case sh of [] \<Rightarrow> [] | r # rs \<Rightarrow> r)"

definition data_rows :: "sheet \<Rightarrow> cell list list" where
  "data_rows sh = (case sh of [] \<Rightarrow> [] | r # rs \<Rightarrow> rs)"

text \<open>The header loop: only cells with a truthy value are appended.\<close>

fun extract_headers :: "cell list \<Rightarrow> string list" where
  "extract_headers [] = []"
| "extract_headers (c # cs) =
     (if cell_truthy c then py_lower (py_strip (cell_str c)) # extract_headers cs
      else extract_headers cs)"

text \<open>\<open>headers.index(x)\<close>; \<open>None\<close> stands for its \<open>ValueError\<close>.\<close>

fun list_index :: "'a list \<Rightarrow> 'a \<Rightarrow> nat option" where
  "list_index [] x = None"
| "list_index (y # ys) x = (if y = x then Some 0 else map_option Suc (list_index ys x))"

text \<open>\<open>song_totals[title] = song_totals.get(title, 0.0) + amount\<close>.\<close>

fun add_total :: "song_totals \<Rightarrow> string \<Rightarrow> pyfloat \<Rightarrow> song_totals" where
  "add_total [] t amount = [(t, float_add (Finite 0) amount)]"
| "add_total ((k, v) # rest) t amount =
     (if k = t then (k, float_add v amount) # rest
      else (k, v) # add_total rest t amount)"

text \<open>The loop over the data rows.\<close>

fun sum_rows :: "nat \<Rightarrow> nat \<Rightarrow> cell list list \<Rightarrow> song_totals \<Rightarrow> py_error + song_totals" where
  "sum_rows title_idx payable_idx [] totals = Inr totals"
| "sum_rows title_idx payable_idx (row # rows) totals =
     (if length row \<le> title_idx then Inl IndexError
      else if \<not> cell_truthy (row ! title_idx)
      then sum_rows title_idx payable_idx rows totals
      else if length row \<le> payable_idx then Inl IndexError
      else if row ! payable_idx = CNone
      then sum_rows title_idx payable_idx rows totals
      else (case cell_float (row ! payable_idx) of
              Inl e \<Rightarrow> sum_rows title_idx payable_idx rows totals
            | Inr amount \<Rightarrow>
                sum_rows title_idx payable_idx rows
                  (add_total totals (py_strip (cell_str (row ! title_idx))) amount)))"

definition no_required_columns :: py_error where
  "no_required_columns = ValueError ''Could not find required columns.''"

text \<open>The body of the \<open>try\<close> block.\<close>

definition read_statement_body ::
  "sheet \<Rightarrow> string option \<Rightarrow> string option \<Rightarrow> py_error + song_totals" where
  "read_statement_body sh title_column payable_column =
     (let headers = extract_headers (header_cells sh)
      in case (case title_column of
                 None \<Rightarrow> find_title_column headers
               | Some t \<Rightarrow> Inr (py_lower t)) of
           Inl e \<Rightarrow> Inl e
         | Inr tc \<Rightarrow>
             (case (case payable_column of
                      None \<Rightarrow> find_payable_column headers
                    | Some p \<Rightarrow> Inr (py_lower p)) of
                Inl e \<Rightarrow> Inl e
              | Inr pc \<Rightarrow>
                  (case list_index headers tc of
                     None \<Rightarrow> Inl no_required_columns
                   | Some title_idx \<Rightarrow>
                       (case list_index headers pc of
                          None \<Rightarrow> Inl no_required_columns
                        | Some payable_idx \<Rightarrow>
                            sum_rows title_idx payable_idx (data_rows sh) []))))"

text \<open>
  Whatever the body raises is caught and raised again as
  \<open>Exception("Error reading royalty statement: ...")\<close>.
\<close>

definition read_royalty_statement ::
  "sheet \<Rightarrow> string option \<Rightarrow> string option \<Rightarrow> py_error + song_totals" where
  "read_royalty_statement sh title_column payable_column =
     (case read_statement_body sh title_column payable_column of
        Inl e \<Rightarrow> Inl (Exception e)
      | Inr totals \<Rightarrow> Inr totals)"

section \<open>Payment calculator\<close>

text \<open>
  The list comprehension \<open>[share for share in contract_data.royalty_shares if "streaming"
  in share.royalty_type.lower()]\<close>; \<open>.lower()\<close> on \<open>None\<close> is an \<open>AttributeError\<close>.
\<close>

fun streaming_filter :: "RoyaltyShare list \<Rightarrow> py_error + RoyaltyShare list" where
  "streaming_filter [] = Inr []"
| "streaming_filter (share # shares) =
     (case royalty_type share of
        None \<Rightarrow> Inl AttributeError
      | Some t \<Rightarrow>
          (case streaming_filter shares of
             Inl e \<Rightarrow> Inl e
           | Inr rest \<Rightarrow> Inr (if py_in ''streaming'' (py_lower t) then share # rest else rest)))"

text \<open>
  \<open>next((p for p in contract_data.parties if p.name.lower() == share.party_name.lower()),
  None)\<close>.
\<close>

fun find_party :: "Party list \<Rightarrow> string option \<Rightarrow> py_error + Party option" where
  "find_party [] share_party = Inr None"
| "find_party (p # ps) share_party =
     (case name p of
        None \<Rightarrow> Inl AttributeError
      | Some n \<Rightarrow>
          (case share_party of
             None \<Rightarrow> Inl AttributeError
           | Some s \<Rightarrow>
               if py_lower n = py_lower s then Inr (Some p) else find_party ps share_party))"

text \<open>The body of the loop \<open>for share in streaming_shares\<close>.\<close>

definition make_payment ::
  "ContractData \<Rightarrow> Work \<Rightarrow> pyfloat \<Rightarrow> RoyaltyShare \<Rightarrow> py_error + RoyaltyPayment" where
  "make_payment contract_data work matched_total share =
     (let amount = float_mul matched_total (float_div_100 (percentage share))
      in case find_party (parties contract_data) (party_name share) of
           Inl e \<Rightarrow> Inl e
         | Inr party \<Rightarrow>
             Inr \<lparr>song_title = title work,
                  party_name = party_name share,
                  role = (case party of None \<Rightarrow> ''Unknown'' | Some p \<Rightarrow> role p),
                  royalty_type = royalty_type share,
                  percentage = percentage share,
                  total_royalty = matched_total,
                  amount_to_pay = amount\<rparr>)"

fun share_payments ::
  "ContractData \<Rightarrow> Work \<Rightarrow> pyfloat \<Rightarrow> RoyaltyShare list \<Rightarrow> py_error + RoyaltyPayment list" where
  "share_payments contract_data work matched_total [] = Inr []"
| "share_payments contract_data work matched_total (share # shares) =
     (case make_payment contract_data work matched_total share of
        Inl e \<Rightarrow> Inl e
      | Inr payment \<Rightarrow>
          (case share_payments contract_data work matched_total shares of
             Inl e \<Rightarrow> Inl e
           | Inr rest \<Rightarrow> Inr (payment # rest)))"

text \<open>
  The loop \<open>for work in contract_data.works\<close>. \<open>_find_matching_song\<close> starts with
  \<open>song_title.lower()\<close>, an \<open>AttributeError\<close> on \<open>None\<close>; \<open>if matching_song:\<close> is the
  truth value of the matched statement title.
\<close>

fun work_payments ::
  "ContractData \<Rightarrow> song_totals \<Rightarrow> RoyaltyShare list \<Rightarrow> Work list
     \<Rightarrow> py_error + RoyaltyPayment list" where
  "work_payments contract_data totals streaming [] = Inr []"
| "work_payments contract_data totals streaming (work # rest) =
     (case title work of
        None \<Rightarrow> Inl AttributeError
      | Some t \<Rightarrow>
          (let (matching_song, matched_total) = find_matching_song t totals
           in case (if truthy matching_song
                    then share_payments contract_data work matched_total streaming
                    else Inr []) of
                Inl e \<Rightarrow> Inl e
              | Inr ps \<Rightarrow>
                  (case work_payments contract_data totals streaming rest of
                     Inl e \<Rightarrow> Inl e
                   | Inr qs \<Rightarrow> Inr (ps @ qs))))"

definition no_works_found :: py_error where
  "no_works_found = ValueError ''No works found in the provided contract data.''"

definition no_royalty_share_data :: py_error where
  "no_royalty_share_data =
     ValueError ''No royalty share data found in the provided contract data.''"

definition no_songs_found :: py_error where
  "no_songs_found = ValueError ''No songs found in the royalty statement.''"

definition calculate_payments_from_data ::
  "ContractData \<Rightarrow> sheet \<Rightarrow> string option \<Rightarrow> string option
     \<Rightarrow> py_error + RoyaltyPayment list" where
  "calculate_payments_from_data contract_data statement title_column payable_column =
     (if works contract_data = [] then Inl no_works_found
      else if royalty_shares contract_data = [] then Inl no_royalty_share_data
      else (case read_royalty_statement statement title_column payable_column of
              Inl e \<Rightarrow> Inl e
            | Inr totals \<Rightarrow>
                if totals = [] then Inl no_songs_found
                else (case streaming_filter (royalty_shares contract_data) of
                        Inl e \<Rightarrow> Inl e
                      | Inr streaming \<Rightarrow>
                          if streaming = [] then Inr []
                          else work_payments contract_data totals streaming
                                 (works contract_data))))"

text \<open>
  \<open>calculate_payments\<close> parses the contract file first; the parser is outside the model,
  so its result \<open>contract_data\<close> is an argument.
\<close>

definition calculate_payments ::
  "ContractData \<Rightarrow> sheet \<Rightarrow> string option \<Rightarrow> string option
     \<Rightarrow> py_error + RoyaltyPayment list" where
  "calculate_payments contract_data statement title_column payable_column =
     (case read_royalty_statement statement title_column payable_column of
        Inl e \<Rightarrow> Inl e
      | Inr totals \<Rightarrow>
          (case streaming_filter (royalty_shares contract_data) of
             Inl e \<Rightarrow> Inl e
           | Inr streaming \<Rightarrow>
               work_payments contract_data totals streaming (works contract_data)))"

section \<open>Notions of the specification\<close>

text \<open>
  \<open>normalize(text)\<close> of section 4.2 of the specification: the empty string for empty or
  null input; otherwise parenthesised annotations are stripped, whitespace is trimmed and
  the result is lower-cased. It is what \<open>normalize_name\<close> returns whenever it returns.
\<close>

definition normalize :: "string option \<Rightarrow> string" where
  "normalize nm =
     (case nm of None \<Rightarrow> [] | Some s \<Rightarrow> py_lower (py_strip (re_sub_parens s)))"

text \<open>
  The identity key of a royalty share as the specification words it,
  \<open>(normalize(party_name), normalize(royalty_type), round(percentage, 2))\<close>, and as the
  merger builds it, with the royalty type lower-cased and trimmed only.
\<close>

definition spec_share_key :: "RoyaltyShare \<Rightarrow> string \<times> string \<times> pyfloat" where
  "spec_share_key r =
     (normalize (party_name r), normalize (royalty_type r), py_round2 (percentage r))"

definition merge_share_key :: "RoyaltyShare \<Rightarrow> string \<times> string \<times> pyfloat" where
  "merge_share_key r =
     (normalize (party_name r),
      (case royalty_type r of None \<Rightarrow> [] | Some t \<Rightarrow> py_strip (py_lower t)),
      py_round2 (percentage r))"

text \<open>No two entries of a list are related by \<open>same\<close>.\<close>

fun no_two :: "('a \<Rightarrow> 'a \<Rightarrow> bool) \<Rightarrow> 'a list \<Rightarrow> bool" where
  "no_two same [] = True"
| "no_two same (x # xs) = ((\<forall>y \<in> set xs. \<not> same x y) \<and> no_two same xs)"

text \<open>The three merged collections of a contract record.\<close>

definition merged_lists :: "ContractData \<Rightarrow> Party list \<times> Work list \<times> RoyaltyShare list" where
  "merged_lists m = (parties m, works m, royalty_shares m)"

text \<open>A work is matched when the song matcher returns a statement title for it.\<close>

definition matched :: "song_totals \<Rightarrow> Work \<Rightarrow> bool" where
  "matched totals w =
     (case title w of None \<Rightarrow> False | Some t \<Rightarrow> fst (find_matching_song t totals) \<noteq> None)"

text \<open>
  What the merge loops maintain: each \<open>seen\<close> set holds exactly the keys of the entries
  merged so far, and no key occurs twice among them.
\<close>

definition parties_inv :: "merge_state \<Rightarrow> bool" where
  "parties_inv st =
     (seen_parties st = (\<lambda>p. normalize (name p)) ` set (merged_parties st) \<and>
      distinct (map (\<lambda>p. normalize (name p)) (merged_parties st)))"

definition works_inv :: "merge_state \<Rightarrow> bool" where
  "works_inv st =
     (seen_works st = work_key ` set (merged_works st) \<and>
      distinct (map work_key (merged_works st)))"

definition shares_inv :: "merge_state \<Rightarrow> bool" where
  "shares_inv st =
     (seen_shares st = merge_share_key ` set (merged_royalty_shares st) \<and>
      no_two (\<lambda>r r'. share_key_eq (merge_share_key r) (merge_share_key r'))
        (merged_royalty_shares st))"

text \<open>
  The two relations of the song matcher between a work title and a statement title:
  equality regardless of case and surrounding whitespace, and containment of the
  normalized work title in the lower-cased statement title or the other way round.
\<close>

definition exact_equal :: "string \<Rightarrow> string \<Rightarrow> bool" where
  "exact_equal work_title t = (py_strip (py_lower t) = py_strip (py_lower work_title))"

definition substring_related :: "string \<Rightarrow> string \<Rightarrow> bool" where
  "substring_related work_title t =
     (py_in (py_strip (py_lower work_title)) (py_lower t) \<or>
      py_in (py_lower t) (py_strip (py_lower work_title)))"


text \<open>
  The two kinds of payable header of section 4.1: one equal to or containing a
  high-precision synonym, and one containing a loose synonym while containing none of
  \<open>withheld\<close>, \<open>deduction\<close> and \<open>fee\<close>.
\<close>

definition priority_header :: "string \<Rightarrow> bool" where
  "priority_header h =
     (\<exists>v \<in> {''net payable'', ''net payment'', ''total payable'', ''net revenue'', ''net amount''}.
        h = v \<or> py_in v h)"

definition loose_header :: "string \<Rightarrow> bool" where
  "loose_header h =
     ((\<exists>v \<in> {''payable'', ''amount'', ''earnings'', ''payment''}. py_in v h) \<and>
      \<not> py_in ''withheld'' h \<and> \<not> py_in ''deduction'' h \<and> \<not> py_in ''fee'' h)"

text \<open>
  A streaming share is one whose royalty type contains \<open>streaming\<close>, in any case. A
  payment record is compared with the pair of work and share it was made for through the
  fields copied from them. A contract record has its text fields present when no name,
  title, party name or royalty type is \<open>None\<close>, as the dataclass annotations say.
\<close>

definition is_streaming :: "RoyaltyShare \<Rightarrow> bool" where
  "is_streaming s =
     (case royalty_type s of None \<Rightarrow> False | Some t \<Rightarrow> py_in ''streaming'' (py_lower t))"

definition payment_pair ::
  "RoyaltyPayment \<Rightarrow> string option \<times> string option \<times> string option \<times> pyfloat" where
  "payment_pair p =
     (song_title p, RoyaltyPayment.party_name p, RoyaltyPayment.royalty_type p,
      RoyaltyPayment.percentage p)"

definition work_share_pair ::
  "Work \<Rightarrow> RoyaltyShare \<Rightarrow> string option \<times> string option \<times> string option \<times> pyfloat" where
  "work_share_pair w s = (title w, party_name s, royalty_type s, percentage s)"

definition text_fields_present :: "ContractData \<Rightarrow> bool" where
  "text_fields_present cd =
     (list_all (\<lambda>p. name p \<noteq> None) (parties cd) \<and>
      list_all (\<lambda>w. title w \<noteq> None) (works cd) \<and>
      list_all (\<lambda>s. party_name s \<noteq> None \<and> royalty_type s \<noteq> None) (royalty_shares cd))"

section \<open>Evaluation of floats and strings on literals\<close>

lemma floor_rat_numeral_div:
  "\<lfloor>numeral a / numeral b :: rat\<rfloor> = numeral a div numeral b"
  using floor_divide_of_int_eq [of "numeral a" "numeral b", where ?'a = rat] by simp

lemma bit_length_0: "bit_length 0 = 0"
  by (simp add: bit_length.simps)

lemma bit_length_1: "bit_length (Suc 0) = Suc 0"
  by (simp add: bit_length.simps [of "Suc 0"] bit_length_0)

lemma bit_length_Bit0: "bit_length (numeral (Num.Bit0 n)) = Suc (bit_length (numeral n))"
  by (subst bit_length.simps) simp

lemma bit_length_Bit1: "bit_length (numeral (Num.Bit1 n)) = Suc (bit_length (numeral n))"
  by (subst bit_length.simps) simp

lemmas float_eval =
  fl_def floor_log2_def pow2_def round_half_even_def Let_def floor_rat_numeral_div
  bit_length_0 bit_length_1 bit_length_Bit0 bit_length_Bit1

lemmas string_eval = py_strip_def py_lower_def lower_char_def py_isspace_def

lemmas merge_eval =
  merge_contracts_def merge_contracts_env_def merge_init_def normalize_name_def
  share_key_of_def key_in_def share_key_eq_def float_eq_def work_key_def
  new_Party_def new_Work_def new_RoyaltyShare_def new_ContractData_def

section \<open>The merger keeps its keys distinct\<close>

lemma fl_not_NaN: "fl x \<noteq> NaN"
  by (simp add: fl_def Let_def)

lemma py_round2_NaN: "py_round2 x = NaN \<longleftrightarrow> x = NaN"
  by (cases x) (simp_all add: fl_not_NaN)

lemma normalize_name_Inr: "normalize_name b nm = Inr s \<Longrightarrow> s = normalize nm"
  by (auto simp: normalize_name_def normalize_def py_strip_def py_lower_def
      split: option.splits if_splits)

lemma share_key_of_Inr:
  "share_key_of b r = Inr k \<Longrightarrow> k = merge_share_key r"
  by (auto simp: share_key_of_def merge_share_key_def split: sum.splits option.splits
      dest: normalize_name_Inr)

lemma no_two_snoc:
  "no_two same (xs @ [x]) = (no_two same xs \<and> (\<forall>y \<in> set xs. \<not> same y x))"
  by (induction xs) auto

lemma share_key_eq_sym: "share_key_eq k k' = share_key_eq k' k"
  by (auto simp: share_key_eq_def float_eq_def)

lemma merge_parties_frame:
  "merge_parties b ps st = Inr st' \<Longrightarrow>
     merged_works st' = merged_works st \<and> seen_works st' = seen_works st \<and>
     merged_royalty_shares st' = merged_royalty_shares st \<and> seen_shares st' = seen_shares st \<and>
     summaries st' = summaries st"
  by (induction ps arbitrary: st) (auto split: sum.splits if_splits)

lemma merge_works_frame:
  "merged_parties (merge_works ws st) = merged_parties st \<and>
   seen_parties (merge_works ws st) = seen_parties st \<and>
   merged_royalty_shares (merge_works ws st) = merged_royalty_shares st \<and>
   seen_shares (merge_works ws st) = seen_shares st \<and>
   summaries (merge_works ws st) = summaries st"
  by (induction ws arbitrary: st) (auto simp: Let_def)

lemma merge_shares_frame:
  "merge_shares b rs st = Inr st' \<Longrightarrow>
     merged_parties st' = merged_parties st \<and> seen_parties st' = seen_parties st \<and>
     merged_works st' = merged_works st \<and> seen_works st' = seen_works st \<and>
     summaries st' = summaries st"
  by (induction rs arbitrary: st) (auto split: sum.splits if_splits)

lemma merge_parties_inv:
  "merge_parties b ps st = Inr st' \<Longrightarrow> parties_inv st \<Longrightarrow> parties_inv st'"
proof (induction ps arbitrary: st)
  case Nil
  then show ?case by simp
next
  case (Cons p ps)
  from Cons.prems(1) obtain n where n: "normalize_name b (name p) = Inr n"
    by (auto split: sum.splits)
  then have nn: "n = normalize (name p)" by (rule normalize_name_Inr)
  show ?case
  proof (cases "n \<noteq> [] \<and> n \<notin> seen_parties st")
    case True
    let ?st = "st\<lparr>merged_parties := merged_parties st @ [p],
                    seen_parties := insert n (seen_parties st)\<rparr>"
    from True n Cons.prems(1) have "merge_parties b ps ?st = Inr st'" by simp
    moreover from True Cons.prems(2) nn have "parties_inv ?st"
      by (auto simp: parties_inv_def)
    ultimately show ?thesis by (rule Cons.IH)
  next
    case False
    with n Cons.prems(1) have "merge_parties b ps st = Inr st'" by auto
    then show ?thesis using Cons.prems(2) by (rule Cons.IH)
  qed
qed

lemma merge_works_inv: "works_inv st \<Longrightarrow> works_inv (merge_works ws st)"
proof (induction ws arbitrary: st)
  case Nil
  then show ?case by simp
next
  case (Cons w ws)
  show ?case
  proof (cases "work_key w \<noteq> [] \<and> work_key w \<notin> seen_works st")
    case True
    let ?st = "st\<lparr>merged_works := merged_works st @ [w],
                    seen_works := insert (work_key w) (seen_works st)\<rparr>"
    from True Cons.prems have "works_inv ?st" by (auto simp: works_inv_def)
    then have "works_inv (merge_works ws ?st)" by (rule Cons.IH)
    with True show ?thesis by (simp add: Let_def)
  next
    case False
    from Cons.prems have "works_inv (merge_works ws st)" by (rule Cons.IH)
    with False show ?thesis by (auto simp: Let_def)
  qed
qed

lemma merge_shares_inv:
  "merge_shares b rs st = Inr st' \<Longrightarrow> shares_inv st \<Longrightarrow> shares_inv st'"
proof (induction rs arbitrary: st)
  case Nil
  then show ?case by simp
next
  case (Cons r rs)
  from Cons.prems(1) obtain k where k: "share_key_of b r = Inr k"
    by (auto split: sum.splits)
  then have kk: "k = merge_share_key r" by (rule share_key_of_Inr)
  show ?case
  proof (cases "key_in k (seen_shares st)")
    case False
    let ?st = "st\<lparr>merged_royalty_shares := merged_royalty_shares st @ [r],
                    seen_shares := insert k (seen_shares st)\<rparr>"
    from False k Cons.prems(1) have "merge_shares b rs ?st = Inr st'" by simp
    moreover have "shares_inv ?st"
    proof -
      from False Cons.prems(2) kk
      have "\<forall>y \<in> set (merged_royalty_shares st).
              \<not> share_key_eq (merge_share_key y) (merge_share_key r)"
        by (auto simp: shares_inv_def key_in_def share_key_eq_sym [of "merge_share_key r"])
      with Cons.prems(2) kk show ?thesis
        by (auto simp: shares_inv_def no_two_snoc)
    qed
    ultimately show ?thesis by (rule Cons.IH)
  next
    case True
    with k Cons.prems(1) have "merge_shares b rs st = Inr st'" by auto
    then show ?thesis using Cons.prems(2) by (rule Cons.IH)
  qed
qed


lemma merge_init_inv: "parties_inv merge_init \<and> works_inv merge_init \<and> shares_inv merge_init"
  by (simp add: parties_inv_def works_inv_def shares_inv_def merge_init_def)

lemma parties_inv_cong:
  "merged_parties st' = merged_parties st \<Longrightarrow> seen_parties st' = seen_parties st \<Longrightarrow>
   parties_inv st' = parties_inv st"
  by (simp add: parties_inv_def)

lemma works_inv_cong:
  "merged_works st' = merged_works st \<Longrightarrow> seen_works st' = seen_works st \<Longrightarrow>
   works_inv st' = works_inv st"
  by (simp add: works_inv_def)

lemma shares_inv_cong:
  "merged_royalty_shares st' = merged_royalty_shares st \<Longrightarrow> seen_shares st' = seen_shares st \<Longrightarrow>
   shares_inv st' = shares_inv st"
  by (simp add: shares_inv_def)

lemma merge_loop_inv:
  "merge_loop b cs st = Inr st' \<Longrightarrow> parties_inv st \<and> works_inv st \<and> shares_inv st \<Longrightarrow>
   parties_inv st' \<and> works_inv st' \<and> shares_inv st'"
proof (induction cs arbitrary: st)
  case Nil
  then show ?case by simp
next
  case (Cons c cs)
  let ?st1 = "st\<lparr>summaries := summaries st @
                  [case contract_summary c of None \<Rightarrow> [] | Some s \<Rightarrow> s]\<rparr>"
  from Cons.prems(1) obtain st2 where st2: "merge_parties b (parties c) ?st1 = Inr st2"
    by (auto simp: Let_def split: sum.splits)
  from Cons.prems(1) st2 obtain st3
    where st3: "merge_shares b (royalty_shares c) (merge_works (works c) st2) = Inr st3"
    by (auto simp: Let_def split: sum.splits)
  from Cons.prems(1) st2 st3 have rest: "merge_loop b cs st3 = Inr st'"
    by (simp add: Let_def)
  have i1: "parties_inv ?st1 \<and> works_inv ?st1 \<and> shares_inv ?st1"
    using Cons.prems(2) by (simp add: parties_inv_def works_inv_def shares_inv_def)
  have f2: "merged_works st2 = merged_works ?st1 \<and> seen_works st2 = seen_works ?st1 \<and>
     merged_royalty_shares st2 = merged_royalty_shares ?st1 \<and> seen_shares st2 = seen_shares ?st1"
    using merge_parties_frame [OF st2] by simp
  have i2: "parties_inv st2 \<and> works_inv st2 \<and> shares_inv st2"
    using merge_parties_inv [OF st2] i1 f2
    by (simp add: works_inv_cong [of st2 ?st1] shares_inv_cong [of st2 ?st1])
  let ?sw = "merge_works (works c) st2"
  have i2w: "parties_inv ?sw \<and> works_inv ?sw \<and> shares_inv ?sw"
    using i2 merge_works_inv [of st2 "works c"] merge_works_frame [of "works c" st2]
    by (simp add: parties_inv_cong [of ?sw st2] shares_inv_cong [of ?sw st2])
  have i3: "parties_inv st3 \<and> works_inv st3 \<and> shares_inv st3"
    using merge_shares_inv [OF st3] i2w merge_shares_frame [OF st3]
    by (simp add: parties_inv_cong [of st3 ?sw] works_inv_cong [of st3 ?sw])
  from rest i3 show ?case by (rule Cons.IH)
qed

lemma no_two_keys_distinct:
  "no_two (\<lambda>r r'. share_key_eq (merge_share_key r) (merge_share_key r')) rs \<Longrightarrow>
   distinct (map merge_share_key (filter (\<lambda>r. percentage r \<noteq> NaN) rs))"
  by (induction rs)
    (auto simp: share_key_eq_def float_eq_def merge_share_key_def py_round2_NaN)

text \<open>
  Claim C1, as the code has it. Whenever \<open>merge_contracts\<close> returns a record (with \<open>re\<close>
  bound or not), no two entries of its parties list have the same normalized name, no two
  entries of its works list have the same trimmed lower-cased title, and no two entries of
  its royalty_shares list whose percentage is not NaN have the same key
  \<open>(normalize(party_name), royalty_type.lower().strip(), round(percentage, 2))\<close>: the
  royalty type is lower-cased and trimmed, and its parenthesised parts are kept.
\<close>

theorem merge_contracts_no_duplicate_keys:
  assumes "merge_contracts_env re_bound contracts = Inr m"
  shows "distinct (map (\<lambda>p. normalize (name p)) (parties m)) \<and>
         distinct (map work_key (works m)) \<and>
         distinct (map merge_share_key
           (filter (\<lambda>r. percentage r \<noteq> NaN) (royalty_shares m)))"
proof -
  from assms obtain st where st: "merge_loop re_bound contracts merge_init = Inr st"
    and m: "parties m = merged_parties st" "works m = merged_works st"
      "royalty_shares m = merged_royalty_shares st"
    by (auto simp: merge_contracts_env_def split: sum.splits)
  from merge_loop_inv [OF st merge_init_inv]
  have "parties_inv st" and "works_inv st" and "shares_inv st"
    by simp_all
  then show ?thesis
    using m by (simp add: parties_inv_def works_inv_def shares_inv_def no_two_keys_distinct)
qed

text \<open>
  An instance on the module as it stands: a work stated twice in different spellings and a
  streaming share stated twice are merged to one entry each, and the share typed
  \<open>streaming (US)\<close> stays beside them. A second instance, with \<open>re\<close> bound, has two
  spellings of one party.
\<close>

theorem merge_contracts_no_duplicate_keys_witness:
  "merge_contracts
     [new_ContractData []
        [new_Work ''Home'' ''Song'', new_Work '' HOME '' ''Single'']
        [new_RoyaltyShare [] ''streaming'' (Finite 50),
         new_RoyaltyShare [] ''Streaming '' (Finite 50),
         new_RoyaltyShare [] ''streaming (US)'' (Finite 50)]]
   = Inr \<lparr>parties = [],
           works = [new_Work ''Home'' ''Song''],
           royalty_shares =
             [new_RoyaltyShare [] ''streaming'' (Finite 50),
              new_RoyaltyShare [] ''streaming (US)'' (Finite 50)],
           contract_summary = Some [], raw_text = None\<rparr>
   \<and> distinct (map work_key [new_Work ''Home'' ''Song''])
   \<and> distinct (map merge_share_key
         (filter (\<lambda>r. percentage r \<noteq> NaN)
            [new_RoyaltyShare [] ''streaming'' (Finite 50),
             new_RoyaltyShare [] ''streaming (US)'' (Finite 50)]))
   \<and> merge_contracts_env True
     [new_ContractData
        [new_Party ''Jane Doe'' ''artist'', new_Party ''jane doe (Producer)'' ''producer'']
        [] []]
   = Inr \<lparr>parties = [new_Party ''Jane Doe'' ''artist''], works = [], royalty_shares = [],
           contract_summary = Some [], raw_text = None\<rparr>
   \<and> distinct (map (\<lambda>p. normalize (name p)) [new_Party ''Jane Doe'' ''artist''])"
proof -
  have run: "merge_contracts
     [new_ContractData []
        [new_Work ''Home'' ''Song'', new_Work '' HOME '' ''Single'']
        [new_RoyaltyShare [] ''streaming'' (Finite 50),
         new_RoyaltyShare [] ''Streaming '' (Finite 50),
         new_RoyaltyShare [] ''streaming (US)'' (Finite 50)]]
   = Inr \<lparr>parties = [],
           works = [new_Work ''Home'' ''Song''],
           royalty_shares =
             [new_RoyaltyShare [] ''streaming'' (Finite 50),
              new_RoyaltyShare [] ''streaming (US)'' (Finite 50)],
           contract_summary = Some [], raw_text = None\<rparr>"
    by (simp add: merge_eval string_eval float_eval)
  have run': "merge_contracts_env True
     [new_ContractData
        [new_Party ''Jane Doe'' ''artist'', new_Party ''jane doe (Producer)'' ''producer'']
        [] []]
   = Inr \<lparr>parties = [new_Party ''Jane Doe'' ''artist''], works = [], royalty_shares = [],
           contract_summary = Some [], raw_text = None\<rparr>"
    by (simp add: merge_eval string_eval)
  from merge_contracts_no_duplicate_keys [OF run [unfolded merge_contracts_def]]
    merge_contracts_no_duplicate_keys [OF run'] run run'
  show ?thesis
    by simp
qed

text \<open>
  The claim as the specification words it fails on the code as it runs, in two ways. With
  the royalty type normalized by the parenthesis-stripping \<open>normalize\<close>: two shares of
  one party whose types differ inside parentheses only are both kept, and they have the
  same key in the specification's sense. And for a NaN percentage: a share stated twice
  with a NaN percentage is kept twice, since its key is equal to no key seen before.
\<close>

theorem merge_contracts_spec_key_counterexample:
  "merge_contracts
     [new_ContractData [] []
        [new_RoyaltyShare [] ''streaming (US)'' (Finite 50),
         new_RoyaltyShare [] ''streaming (EU)'' (Finite 50)]]
   = Inr \<lparr>parties = [], works = [],
           royalty_shares =
             [new_RoyaltyShare [] ''streaming (US)'' (Finite 50),
              new_RoyaltyShare [] ''streaming (EU)'' (Finite 50)],
           contract_summary = Some [], raw_text = None\<rparr>
   \<and> spec_share_key (new_RoyaltyShare [] ''streaming (US)'' (Finite 50))
       = spec_share_key (new_RoyaltyShare [] ''streaming (EU)'' (Finite 50))
   \<and> \<not> distinct (map spec_share_key
         [new_RoyaltyShare [] ''streaming (US)'' (Finite 50),
          new_RoyaltyShare [] ''streaming (EU)'' (Finite 50)])
   \<and> merge_contracts
     [new_ContractData [] []
        [new_RoyaltyShare [] ''streaming'' NaN, new_RoyaltyShare [] ''streaming'' NaN]]
   = Inr \<lparr>parties = [], works = [],
           royalty_shares =
             [new_RoyaltyShare [] ''streaming'' NaN, new_RoyaltyShare [] ''streaming'' NaN],
           contract_summary = Some [], raw_text = None\<rparr>
   \<and> \<not> distinct (map spec_share_key
         [new_RoyaltyShare [] ''streaming'' NaN, new_RoyaltyShare [] ''streaming'' NaN])"
  by (simp add: merge_eval string_eval float_eval spec_share_key_def normalize_def)

section \<open>Merging a record with itself\<close>

lemma merge_parties_covers:
  "merge_parties b ps st = Inr st' \<Longrightarrow>
   seen_parties st \<subseteq> seen_parties st' \<and>
   (\<forall>p \<in> set ps. \<exists>n. normalize_name b (name p) = Inr n \<and> (n = [] \<or> n \<in> seen_parties st'))"
proof (induction ps arbitrary: st)
  case Nil
  then show ?case by simp
next
  case (Cons p ps)
  from Cons.prems obtain n where n: "normalize_name b (name p) = Inr n"
    by (auto split: sum.splits)
  show ?case
  proof (cases "n \<noteq> [] \<and> n \<notin> seen_parties st")
    case True
    let ?st = "st\<lparr>merged_parties := merged_parties st @ [p],
                    seen_parties := insert n (seen_parties st)\<rparr>"
    from True n Cons.prems have "merge_parties b ps ?st = Inr st'" by simp
    from Cons.IH [OF this] n show ?thesis by auto
  next
    case False
    with n Cons.prems have "merge_parties b ps st = Inr st'" by auto
    from Cons.IH [OF this] n False show ?thesis by auto
  qed
qed

lemma merge_parties_absorbed:
  "\<forall>p \<in> set ps. \<exists>n. normalize_name b (name p) = Inr n \<and> (n = [] \<or> n \<in> seen_parties st) \<Longrightarrow>
   merge_parties b ps st = Inr st"
  by (induction ps) auto

lemma merge_works_covers:
  "seen_works st \<subseteq> seen_works (merge_works ws st) \<and>
   (\<forall>w \<in> set ws. work_key w = [] \<or> work_key w \<in> seen_works (merge_works ws st))"
proof (induction ws arbitrary: st)
  case Nil
  then show ?case by simp
next
  case (Cons w ws)
  show ?case
  proof (cases "work_key w \<noteq> [] \<and> work_key w \<notin> seen_works st")
    case True
    let ?st = "st\<lparr>merged_works := merged_works st @ [w],
                    seen_works := insert (work_key w) (seen_works st)\<rparr>"
    from True have "merge_works (w # ws) st = merge_works ws ?st" by (simp add: Let_def)
    with Cons.IH [of ?st] show ?thesis by auto
  next
    case False
    then have "merge_works (w # ws) st = merge_works ws st" by (auto simp: Let_def)
    with Cons.IH [of st] False show ?thesis by auto
  qed
qed

lemma merge_works_absorbed:
  "\<forall>w \<in> set ws. work_key w = [] \<or> work_key w \<in> seen_works st \<Longrightarrow> merge_works ws st = st"
  by (induction ws) (auto simp: Let_def)

lemma key_in_mono: "key_in k S \<Longrightarrow> S \<subseteq> T \<Longrightarrow> key_in k T"
  by (auto simp: key_in_def)

lemma key_in_insert_self: "snd (snd k) \<noteq> NaN \<Longrightarrow> key_in k (insert k S)"
  by (simp add: key_in_def share_key_eq_def float_eq_def)

lemma merge_shares_covers:
  "merge_shares b rs st = Inr st' \<Longrightarrow>
   seen_shares st \<subseteq> seen_shares st' \<and>
   (\<forall>r \<in> set rs. \<exists>k. share_key_of b r = Inr k \<and>
       (key_in k (seen_shares st') \<or> snd (snd k) = NaN))"
proof (induction rs arbitrary: st)
  case Nil
  then show ?case by simp
next
  case (Cons r rs)
  from Cons.prems obtain k where k: "share_key_of b r = Inr k"
    by (auto split: sum.splits)
  show ?case
  proof (cases "key_in k (seen_shares st)")
    case False
    let ?st = "st\<lparr>merged_royalty_shares := merged_royalty_shares st @ [r],
                    seen_shares := insert k (seen_shares st)\<rparr>"
    from False k Cons.prems have "merge_shares b rs ?st = Inr st'" by simp
    from Cons.IH [OF this]
    have sub: "insert k (seen_shares st) \<subseteq> seen_shares st'"
      and rest: "\<forall>r \<in> set rs. \<exists>k. share_key_of b r = Inr k \<and>
         (key_in k (seen_shares st') \<or> snd (snd k) = NaN)"
      by simp_all
    have here: "key_in k (seen_shares st') \<or> snd (snd k) = NaN"
      using key_in_insert_self [of k "seen_shares st"] key_in_mono [OF _ sub] by blast
    show ?thesis
    proof (intro conjI ballI)
      show "seen_shares st \<subseteq> seen_shares st'" using sub by blast
    next
      fix x assume "x \<in> set (r # rs)"
      then consider "x = r" | "x \<in> set rs" by auto
      then show "\<exists>k. share_key_of b x = Inr k \<and>
          (key_in k (seen_shares st') \<or> snd (snd k) = NaN)"
      proof cases
        case 1
        with k here show ?thesis by blast
      next
        case 2
        with rest show ?thesis by blast
      qed
    qed
  next
    case True
    with k Cons.prems have run: "merge_shares b rs st = Inr st'" by auto
    from Cons.IH [OF run]
    have sub: "seen_shares st \<subseteq> seen_shares st'"
      and rest: "\<forall>r \<in> set rs. \<exists>k. share_key_of b r = Inr k \<and>
         (key_in k (seen_shares st') \<or> snd (snd k) = NaN)"
      by simp_all
    have here: "key_in k (seen_shares st')"
      using key_in_mono [OF True sub] .
    show ?thesis
    proof (intro conjI ballI)
      show "seen_shares st \<subseteq> seen_shares st'" by (rule sub)
    next
      fix x assume "x \<in> set (r # rs)"
      then consider "x = r" | "x \<in> set rs" by auto
      then show "\<exists>k. share_key_of b x = Inr k \<and>
          (key_in k (seen_shares st') \<or> snd (snd k) = NaN)"
      proof cases
        case 1
        with k here show ?thesis by blast
      next
        case 2
        with rest show ?thesis by blast
      qed
    qed
  qed
qed

lemma merge_shares_absorbed:
  "\<forall>r \<in> set rs. \<exists>k. share_key_of b r = Inr k \<and> key_in k (seen_shares st) \<Longrightarrow>
   merge_shares b rs st = Inr st"
  by (induction rs) auto

lemma share_key_of_pct:
  "share_key_of b r = Inr k \<Longrightarrow> snd (snd k) = py_round2 (percentage r)"
  by (auto simp: share_key_of_def split: sum.splits option.splits)

lemma merge_loop_twice:
  assumes nan: "\<forall>r \<in> set (royalty_shares c). percentage r \<noteq> NaN"
    and run: "merge_loop b [c] st = Inr st1"
  shows "\<exists>st2. merge_loop b [c] st1 = Inr st2 \<and>
           merged_parties st2 = merged_parties st1 \<and>
           merged_works st2 = merged_works st1 \<and>
           merged_royalty_shares st2 = merged_royalty_shares st1"
proof -
  define s where "s = (case contract_summary c of None \<Rightarrow> [] | Some s \<Rightarrow> s)"
  let ?a = "st\<lparr>summaries := summaries st @ [s]\<rparr>"
  from run obtain a2 where a2: "merge_parties b (parties c) ?a = Inr a2"
    by (auto simp: Let_def s_def split: sum.splits)
  from run a2 have a3: "merge_shares b (royalty_shares c) (merge_works (works c) a2) = Inr st1"
    by (auto simp: Let_def s_def split: sum.splits)
  let ?w = "merge_works (works c) a2"
  let ?b = "st1\<lparr>summaries := summaries st1 @ [s]\<rparr>"
  have seen_p: "seen_parties st1 = seen_parties a2"
    using merge_shares_frame [OF a3] merge_works_frame [of "works c" a2] by simp
  have seen_w: "seen_works st1 = seen_works ?w"
    using merge_shares_frame [OF a3] by simp
  have p: "merge_parties b (parties c) ?b = Inr ?b"
  proof (rule merge_parties_absorbed)
    show "\<forall>p \<in> set (parties c). \<exists>n. normalize_name b (name p) = Inr n \<and>
        (n = [] \<or> n \<in> seen_parties ?b)"
      using merge_parties_covers [OF a2] seen_p by simp
  qed
  have w: "merge_works (works c) ?b = ?b"
  proof (rule merge_works_absorbed)
    show "\<forall>w \<in> set (works c). work_key w = [] \<or> work_key w \<in> seen_works ?b"
      using merge_works_covers [of a2 "works c"] seen_w by simp
  qed
  have r: "merge_shares b (royalty_shares c) ?b = Inr ?b"
  proof (rule merge_shares_absorbed, rule ballI)
    fix x assume x: "x \<in> set (royalty_shares c)"
    with merge_shares_covers [OF a3] obtain k
      where k: "share_key_of b x = Inr k"
        and k_in: "key_in k (seen_shares st1) \<or> snd (snd k) = NaN"
      by blast
    from share_key_of_pct [OF k] nan x have "snd (snd k) \<noteq> NaN"
      by (simp add: py_round2_NaN)
    with k k_in show "\<exists>k. share_key_of b x = Inr k \<and> key_in k (seen_shares ?b)"
      by auto
  qed
  have "merge_loop b [c] st1 = Inr ?b"
    using p w r by (simp add: Let_def s_def)
  then show ?thesis by simp
qed

lemma merge_loop_append_one:
  "merge_loop b [c, c] st = (case merge_loop b [c] st of Inl e \<Rightarrow> Inl e
                             | Inr st1 \<Rightarrow> merge_loop b [c] st1)"
  by (simp add: Let_def split: sum.splits)

text \<open>
  Claim C5, as the code has it. Merging is idempotent for a record none of whose shares
  has a NaN percentage: \<open>merge_contracts([c, c])\<close> and \<open>merge_contracts([c])\<close> raise
  the same exception or return records with the same parties, works and royalty_shares
  lists (with \<open>re\<close> bound or not).
\<close>

theorem merge_contracts_idempotent:
  assumes "\<forall>r \<in> set (royalty_shares c). percentage r \<noteq> NaN"
  shows "map_sum id merged_lists (merge_contracts_env re_bound [c, c]) =
         map_sum id merged_lists (merge_contracts_env re_bound [c])"
proof (cases "merge_loop re_bound [c] merge_init")
  case (Inl e)
  then show ?thesis
    by (simp add: merge_contracts_env_def merge_loop_append_one del: merge_loop.simps)
next
  case (Inr st1)
  from merge_loop_twice [OF assms Inr] obtain st2
    where "merge_loop re_bound [c] st1 = Inr st2"
      and "merged_parties st2 = merged_parties st1"
      and "merged_works st2 = merged_works st1"
      and "merged_royalty_shares st2 = merged_royalty_shares st1"
    by blast
  with Inr show ?thesis
    by (simp add: merge_contracts_env_def merge_loop_append_one merged_lists_def
        del: merge_loop.simps)
qed


text \<open>
  Example 2 of the specification: two uploads that both list Party \<open>Jane Doe\<close> with the
  share \<open>(Jane Doe, streaming, 50.0)\<close> merge to one party and one share when \<open>re\<close> is
  bound; as the module stands both merges raise \<open>NameError\<close>.
\<close>

theorem merge_contracts_idempotent_witness:
  "map_sum id merged_lists
     (merge_contracts_env True
        [new_ContractData [new_Party ''Jane Doe'' ''artist''] []
           [new_RoyaltyShare ''Jane Doe'' ''streaming'' (Finite 50)],
         new_ContractData [new_Party ''Jane Doe'' ''artist''] []
           [new_RoyaltyShare ''Jane Doe'' ''streaming'' (Finite 50)]])
   = Inr ([new_Party ''Jane Doe'' ''artist''], [],
          [new_RoyaltyShare ''Jane Doe'' ''streaming'' (Finite 50)])
   \<and> map_sum id merged_lists
     (merge_contracts_env False
        [new_ContractData [new_Party ''Jane Doe'' ''artist''] []
           [new_RoyaltyShare ''Jane Doe'' ''streaming'' (Finite 50)],
         new_ContractData [new_Party ''Jane Doe'' ''artist''] []
           [new_RoyaltyShare ''Jane Doe'' ''streaming'' (Finite 50)]])
   = Inl NameError"
proof -
  let ?c = "new_ContractData [new_Party ''Jane Doe'' ''artist''] []
              [new_RoyaltyShare ''Jane Doe'' ''streaming'' (Finite 50)]"
  have no_nan: "\<forall>r \<in> set (royalty_shares ?c). percentage r \<noteq> NaN"
    by (simp add: new_ContractData_def new_RoyaltyShare_def)
  have once: "merge_contracts_env True [?c] =
      Inr \<lparr>parties = [new_Party ''Jane Doe'' ''artist''], works = [],
           royalty_shares = [new_RoyaltyShare ''Jane Doe'' ''streaming'' (Finite 50)],
           contract_summary = Some [], raw_text = None\<rparr>"
    by (simp add: merge_eval string_eval float_eval)
  have once': "merge_contracts_env False [?c] = Inl NameError"
    by (simp add: merge_eval)
  show ?thesis
    using merge_contracts_idempotent [OF no_nan, of True]
      merge_contracts_idempotent [OF no_nan, of False]
    by (simp add: once once' merged_lists_def)
qed


text \<open>
  The claim for every record fails on a NaN percentage: the key tuple of such a share is
  equal to no key seen before, so the share is appended again on the second pass.
\<close>

theorem merge_contracts_nan_counterexample:
  "merge_contracts [new_ContractData [] [] [new_RoyaltyShare [] ''streaming'' NaN]]
   = Inr \<lparr>parties = [], works = [],
           royalty_shares = [new_RoyaltyShare [] ''streaming'' NaN],
           contract_summary = Some [], raw_text = None\<rparr>
   \<and> merge_contracts
       [new_ContractData [] [] [new_RoyaltyShare [] ''streaming'' NaN],
        new_ContractData [] [] [new_RoyaltyShare [] ''streaming'' NaN]]
   = Inr \<lparr>parties = [], works = [],
           royalty_shares =
             [new_RoyaltyShare [] ''streaming'' NaN, new_RoyaltyShare [] ''streaming'' NaN],
           contract_summary = Some [], raw_text = None\<rparr>"
  by (simp add: merge_eval string_eval)


section \<open>Named parties and the merger\<close>

text \<open>
  As the module stands, \<open>normalize_name\<close> returns for the empty name only, so the party
  loop appends nothing: whenever \<open>merge_contracts\<close> returns, its parties list is empty.
\<close>

lemma normalize_name_unbound: "normalize_name False nm = Inr n \<Longrightarrow> n = []"
  by (auto simp: normalize_name_def split: option.splits if_splits)

lemma merge_parties_unbound:
  "merge_parties False ps st = Inr st' \<Longrightarrow> merged_parties st' = merged_parties st"
  by (induction ps arbitrary: st)
    (auto split: sum.splits if_splits dest: normalize_name_unbound)

lemma merge_loop_unbound:
  "merge_loop False cs st = Inr st' \<Longrightarrow> merged_parties st' = merged_parties st"
proof (induction cs arbitrary: st)
  case Nil
  then show ?case by simp
next
  case (Cons c cs)
  let ?st1 = "st\<lparr>summaries := summaries st @
                  [case contract_summary c of None \<Rightarrow> [] | Some s \<Rightarrow> s]\<rparr>"
  from Cons.prems obtain st2 where st2: "merge_parties False (parties c) ?st1 = Inr st2"
    by (auto simp: Let_def split: sum.splits)
  from Cons.prems st2 obtain st3
    where st3: "merge_shares False (royalty_shares c) (merge_works (works c) st2) = Inr st3"
    by (auto simp: Let_def split: sum.splits)
  from Cons.prems st2 st3 have rest: "merge_loop False cs st3 = Inr st'"
    by (simp add: Let_def)
  have "merged_parties st3 = merged_parties st"
    using merge_parties_unbound [OF st2] merge_shares_frame [OF st3]
      merge_works_frame [of "works c" st2]
    by simp
  with Cons.IH [OF rest] show ?case by simp
qed

lemma merge_contracts_parties_empty:
  "merge_contracts contracts = Inr m \<Longrightarrow> parties m = []"
  by (auto simp: merge_contracts_def merge_contracts_env_def merge_init_def
      split: sum.splits dest: merge_loop_unbound)

text \<open>
  Claim C9 does not hold of the code. A Party with a non-empty name in an input record
  makes \<open>merge_contracts\<close> raise \<open>NameError\<close>, the missing import of \<open>re\<close> again, so
  there is no merged parties list that represents the party; here the second record
  names \<open>Jane Doe\<close>.
\<close>

theorem merge_contracts_loses_named_party:
  "merge_contracts
     [new_ContractData [] [new_Work ''Home'' ''Song''] [],
      new_ContractData [new_Party ''Jane Doe'' ''artist''] [] []]
   = Inl NameError"
  by (simp add: merge_eval string_eval)

section \<open>The merger raises\<close>

text \<open>
  Claim C8 does not hold of the code. As the module stands, a record with a named party
  or a share of a named party makes \<open>merge_contracts\<close> raise \<open>NameError\<close>; and even
  with \<open>re\<close> bound a share whose royalty type is \<open>None\<close> makes it raise
  \<open>AttributeError\<close>.
\<close>

theorem merge_contracts_raises:
  "merge_contracts [new_ContractData [new_Party ''Alice'' ''artist''] [] []] = Inl NameError
   \<and> merge_contracts
       [new_ContractData [] [] [new_RoyaltyShare ''Alice'' ''streaming'' (Finite 50)]]
     = Inl NameError
   \<and> merge_contracts_env True
       [new_ContractData [] []
          [\<lparr>party_name = Some ''Alice'', royalty_type = None, percentage = Finite 50,
            terms = None\<rparr>]]
     = Inl AttributeError"
  by (simp add: merge_eval string_eval)

section \<open>The song matcher is exact first, substring second\<close>

lemma exact_match_first:
  "(\<forall>x \<in> set pre. \<not> exact_equal w (fst x)) \<Longrightarrow> exact_equal w t \<Longrightarrow>
   exact_match (py_strip (py_lower w)) (pre @ (t, a) # post) = Some (t, a)"
  by (induction pre) (auto simp: exact_equal_def)

lemma exact_match_none:
  "(\<forall>x \<in> set totals. \<not> exact_equal w (fst x)) \<Longrightarrow>
   exact_match (py_strip (py_lower w)) totals = None"
  by (induction totals) (auto simp: exact_equal_def)

lemma partial_match_first:
  "(\<forall>x \<in> set pre. \<not> substring_related w (fst x)) \<Longrightarrow> substring_related w t \<Longrightarrow>
   partial_match (py_strip (py_lower w)) (pre @ (t, a) # post) = Some (t, a)"
  by (induction pre) (auto simp: substring_related_def)

lemma partial_match_none:
  "(\<forall>x \<in> set totals. \<not> substring_related w (fst x)) \<Longrightarrow>
   partial_match (py_strip (py_lower w)) totals = None"
  by (induction totals) (auto simp: substring_related_def)

lemma exact_match_member:
  "(t, a) \<in> set totals \<Longrightarrow>
   \<exists>t' a'. exact_match (py_strip (py_lower t)) totals = Some (t', a') \<and>
           (t', a') \<in> set totals \<and> exact_equal t t'"
  by (induction totals) (auto simp: exact_equal_def)

text \<open>
  Claim C4. For every work title and every statement aggregate the song matcher returns
  the first statement title, in iteration order, that is equal to the work title
  regardless of case and surrounding whitespace; only when there is none does it return
  the first statement title such that the normalized work title is a substring of it or
  the other way round; when neither stage matches it returns \<open>(None, 0.0)\<close>. A work titled
  exactly as a statement title matches at the first stage, and \<open>Midnight (feat. X)\<close>
  against the statement title \<open>midnight\<close> matches at the substring stage.
\<close>

theorem find_matching_song_two_stage:
  "((\<forall>x \<in> set pre. \<not> exact_equal w (fst x)) \<and> exact_equal w t \<longrightarrow>
      find_matching_song w (pre @ (t, a) # post) = (Some t, a))
   \<and> ((\<forall>x \<in> set (pre @ (t, a) # post). \<not> exact_equal w (fst x)) \<and>
       (\<forall>x \<in> set pre. \<not> substring_related w (fst x)) \<and> substring_related w t \<longrightarrow>
      find_matching_song w (pre @ (t, a) # post) = (Some t, a))
   \<and> ((\<forall>x \<in> set totals. \<not> exact_equal w (fst x) \<and> \<not> substring_related w (fst x)) \<longrightarrow>
      find_matching_song w totals = (None, Finite 0))
   \<and> ((t, a) \<in> set totals \<longrightarrow>
      (\<exists>t' a'. find_matching_song t totals = (Some t', a') \<and> (t', a') \<in> set totals \<and>
               exact_equal t t'))
   \<and> find_matching_song ''Midnight (feat. X)'' [(''midnight'', a)] = (Some ''midnight'', a)
   \<and> \<not> exact_equal ''Midnight (feat. X)'' ''midnight''"
proof (intro conjI impI)
  assume "(\<forall>x \<in> set pre. \<not> exact_equal w (fst x)) \<and> exact_equal w t"
  then show "find_matching_song w (pre @ (t, a) # post) = (Some t, a)"
    by (simp add: find_matching_song_def exact_match_first)
next
  assume h: "(\<forall>x \<in> set (pre @ (t, a) # post). \<not> exact_equal w (fst x)) \<and>
       (\<forall>x \<in> set pre. \<not> substring_related w (fst x)) \<and> substring_related w t"
  then have "exact_match (py_strip (py_lower w)) (pre @ (t, a) # post) = None"
    by (intro exact_match_none) blast
  moreover from h have "partial_match (py_strip (py_lower w)) (pre @ (t, a) # post) = Some (t, a)"
    by (intro partial_match_first) blast+
  ultimately show "find_matching_song w (pre @ (t, a) # post) = (Some t, a)"
    by (simp add: find_matching_song_def)
next
  assume h: "\<forall>x \<in> set totals. \<not> exact_equal w (fst x) \<and> \<not> substring_related w (fst x)"
  then have "exact_match (py_strip (py_lower w)) totals = None"
    by (intro exact_match_none) blast
  moreover from h have "partial_match (py_strip (py_lower w)) totals = None"
    by (intro partial_match_none) blast
  ultimately show "find_matching_song w totals = (None, Finite 0)"
    by (simp add: find_matching_song_def)
next
  assume "(t, a) \<in> set totals"
  from exact_match_member [OF this]
  show "\<exists>t' a'. find_matching_song t totals = (Some t', a') \<and> (t', a') \<in> set totals \<and>
               exact_equal t t'"
    by (auto simp: find_matching_song_def)
next
  show "find_matching_song ''Midnight (feat. X)'' [(''midnight'', a)] = (Some ''midnight'', a)"
    by (simp add: find_matching_song_def string_eval)
next
  show "\<not> exact_equal ''Midnight (feat. X)'' ''midnight''"
    by (simp add: exact_equal_def string_eval)
qed

text \<open>
  Instances: the first exact match wins over an earlier substring match and a later exact
  one; the substring stage takes the first related title; an unrelated title is not found.
\<close>

theorem find_matching_song_two_stage_witness:
  "find_matching_song '' HOME''
     [(''Homeland'', Finite 7), (''Home'', Finite 1000), (''home'', Finite 5)]
     = (Some ''Home'', Finite 1000)
   \<and> find_matching_song ''Homel''
     [(''Away'', Finite 3), (''Home'', Finite 1000), (''Homeland'', Finite 7)]
     = (Some ''Home'', Finite 1000)
   \<and> find_matching_song ''Elsewhere'' [(''Home'', Finite 1000)] = (None, Finite 0)
   \<and> (\<exists>t' a'. find_matching_song ''Home'' [(''home'', Finite 5), (''Home'', Finite 1000)]
                 = (Some t', a') \<and> exact_equal ''Home'' t')"
proof -
  note ts = find_matching_song_two_stage
  have 1: "find_matching_song '' HOME''
     ([(''Homeland'', Finite 7)] @ (''Home'', Finite 1000) # [(''home'', Finite 5)])
     = (Some ''Home'', Finite 1000)"
    by (rule ts [THEN conjunct1, rule_format]) (simp add: exact_equal_def string_eval)
  have 2: "find_matching_song ''Homel''
     ([(''Away'', Finite 3)] @ (''Home'', Finite 1000) # [(''Homeland'', Finite 7)])
     = (Some ''Home'', Finite 1000)"
    by (rule ts [THEN conjunct2, THEN conjunct1, rule_format])
      (simp add: exact_equal_def substring_related_def string_eval)
  have 3: "find_matching_song ''Elsewhere'' [(''Home'', Finite 1000)] = (None, Finite 0)"
    by (rule ts [THEN conjunct2, THEN conjunct2, THEN conjunct1, rule_format])
      (simp add: exact_equal_def substring_related_def string_eval)
  have 4: "\<exists>t' a'. find_matching_song ''Home'' [(''home'', Finite 5), (''Home'', Finite 1000)]
                 = (Some t', a') \<and> (t', a') \<in> set [(''home'', Finite 5), (''Home'', Finite 1000)]
                 \<and> exact_equal ''Home'' t'"
    by (rule ts [THEN conjunct2, THEN conjunct2, THEN conjunct2, THEN conjunct1, rule_format])
      simp
  from 1 2 3 4 show ?thesis by auto
qed

section \<open>Payable-column detection\<close>

lemma priority_header_code:
  "list_ex (\<lambda>var. var = h \<or> py_in var h) priority_variations = priority_header h"
  by (auto simp: priority_variations_def priority_header_def)

lemma loose_header_code:
  "list_ex (\<lambda>var. py_in var h \<and> \<not> py_in ''withheld'' h \<and> \<not> py_in ''deduction'' h
                    \<and> \<not> py_in ''fee'' h) general_variations = loose_header h"
  by (auto simp: general_variations_def loose_header_def)

lemma priority_pass_first:
  "(\<forall>x \<in> set pre. \<not> priority_header x) \<Longrightarrow> priority_header h \<Longrightarrow>
   priority_pass (pre @ h # post) = Some h"
  by (induction pre) (simp_all add: priority_header_code)

lemma priority_pass_none:
  "(\<forall>x \<in> set headers. \<not> priority_header x) \<Longrightarrow> priority_pass headers = None"
  by (induction headers) (simp_all add: priority_header_code)

lemma general_pass_first:
  "(\<forall>x \<in> set pre. \<not> loose_header x) \<Longrightarrow> loose_header h \<Longrightarrow>
   general_pass (pre @ h # post) = Some h"
  by (induction pre) (simp_all add: loose_header_code)

lemma general_pass_none:
  "(\<forall>x \<in> set headers. \<not> loose_header x) \<Longrightarrow> general_pass headers = None"
  by (induction headers) (simp_all add: loose_header_code)

lemma general_pass_Some:
  "general_pass headers = Some h \<Longrightarrow> h \<in> set headers \<and> loose_header h"
  by (induction headers) (auto simp: loose_header_code split: if_splits)

text \<open>
  Claim C6. Payable-column detection is two-pass: pass 1 returns the first header, in
  file order, equal to or containing a high-precision synonym; pass 2, only when pass 1
  finds nothing, returns the first header containing a loose synonym and none of
  \<open>withheld\<close>, \<open>deduction\<close>, \<open>fee\<close>, so what it returns never contains one of
  these; when neither pass succeeds the detection fails with the \<open>ValueError\<close> of the
  missing payable column. For the headers \<open>Release Title\<close>, \<open>Net Payable\<close>,
  \<open>Withheld Amount\<close> the payable column is \<open>net payable\<close>.
\<close>

theorem find_payable_column_two_pass:
  "((\<forall>x \<in> set pre. \<not> priority_header x) \<and> priority_header h \<longrightarrow>
      find_payable_column (pre @ h # post) = Inr h)
   \<and> ((\<forall>x \<in> set (pre @ h # post). \<not> priority_header x) \<and>
       (\<forall>x \<in> set pre. \<not> loose_header x) \<and> loose_header h \<longrightarrow>
      find_payable_column (pre @ h # post) = Inr h)
   \<and> ((\<forall>x \<in> set headers. \<not> priority_header x \<and> \<not> loose_header x) \<longrightarrow>
      find_payable_column headers = Inl no_payable_column)
   \<and> ((\<forall>x \<in> set headers. \<not> priority_header x) \<and> find_payable_column headers = Inr h \<longrightarrow>
      \<not> py_in ''withheld'' h \<and> \<not> py_in ''deduction'' h \<and> \<not> py_in ''fee'' h)
   \<and> find_payable_column
       (extract_headers [CStr ''Release Title'', CStr ''Net Payable'', CStr ''Withheld Amount''])
     = Inr ''net payable''"
proof (intro conjI impI)
  assume "(\<forall>x \<in> set pre. \<not> priority_header x) \<and> priority_header h"
  then show "find_payable_column (pre @ h # post) = Inr h"
    by (simp add: find_payable_column_def priority_pass_first)
next
  assume h: "(\<forall>x \<in> set (pre @ h # post). \<not> priority_header x) \<and>
       (\<forall>x \<in> set pre. \<not> loose_header x) \<and> loose_header h"
  then have "priority_pass (pre @ h # post) = None"
    by (intro priority_pass_none) blast
  moreover from h have "general_pass (pre @ h # post) = Some h"
    by (intro general_pass_first) blast+
  ultimately show "find_payable_column (pre @ h # post) = Inr h"
    by (simp add: find_payable_column_def)
next
  assume h: "\<forall>x \<in> set headers. \<not> priority_header x \<and> \<not> loose_header x"
  then have "priority_pass headers = None"
    by (intro priority_pass_none) blast
  moreover from h have "general_pass headers = None"
    by (intro general_pass_none) blast
  ultimately show "find_payable_column headers = Inl no_payable_column"
    by (simp add: find_payable_column_def)
next
  assume h: "(\<forall>x \<in> set headers. \<not> priority_header x) \<and> find_payable_column headers = Inr h"
  then have "priority_pass headers = None"
    by (intro priority_pass_none) blast
  with h have "general_pass headers = Some h"
    by (auto simp: find_payable_column_def split: option.splits)
  from general_pass_Some [OF this]
  have "loose_header h" by simp
  then show "\<not> py_in ''withheld'' h" and "\<not> py_in ''deduction'' h" and "\<not> py_in ''fee'' h"
    by (simp_all add: loose_header_def)
next
  show "find_payable_column
       (extract_headers [CStr ''Release Title'', CStr ''Net Payable'', CStr ''Withheld Amount''])
     = Inr ''net payable''"
    by (simp add: find_payable_column_def priority_variations_def string_eval)
qed

text \<open>
  Instances: a high-precision header is taken at once; without one, the headers
  \<open>withheld amount\<close> and \<open>fee payable\<close> are passed over for \<open>earnings\<close>; with
  nothing but a withheld column the detection fails.
\<close>

theorem find_payable_column_two_pass_witness:
  "find_payable_column [''release title'', ''net payable'', ''withheld amount'']
     = Inr ''net payable''
   \<and> find_payable_column [''title'', ''withheld amount'', ''fee payable'', ''earnings'']
     = Inr ''earnings''
   \<and> find_payable_column [''title'', ''withheld amount''] = Inl no_payable_column
   \<and> \<not> py_in ''withheld'' ''earnings'' \<and> \<not> py_in ''deduction'' ''earnings''
   \<and> \<not> py_in ''fee'' ''earnings''"
proof -
  note ts = find_payable_column_two_pass
  have 1: "find_payable_column ([''release title''] @ ''net payable'' # [''withheld amount''])
     = Inr ''net payable''"
    by (rule ts [THEN conjunct1, rule_format]) (simp add: priority_header_def)
  have 2: "find_payable_column
      ([''title'', ''withheld amount'', ''fee payable''] @ ''earnings'' # [])
     = Inr ''earnings''"
    by (rule ts [THEN conjunct2, THEN conjunct1, rule_format])
      (simp add: priority_header_def loose_header_def)
  have 3: "find_payable_column [''title'', ''withheld amount''] = Inl no_payable_column"
    by (rule ts [THEN conjunct2, THEN conjunct2, THEN conjunct1, rule_format])
      (auto simp: priority_header_def loose_header_def)
  have 4: "\<not> py_in ''withheld'' ''earnings'' \<and> \<not> py_in ''deduction'' ''earnings''
      \<and> \<not> py_in ''fee'' ''earnings''"
  proof (rule ts [THEN conjunct2, THEN conjunct2, THEN conjunct2, THEN conjunct1, rule_format])
    show "(\<forall>x \<in> set [''title'', ''withheld amount'', ''fee payable'', ''earnings''].
            \<not> priority_header x) \<and>
          find_payable_column [''title'', ''withheld amount'', ''fee payable'', ''earnings'']
            = Inr ''earnings''"
      using 2 by (simp add: priority_header_def)
  qed
  from 1 2 3 4 show ?thesis by simp
qed

section \<open>Preconditions of the payment calculator\<close>

lemma streaming_filter_Inr:
  "streaming_filter rs = Inr ss \<Longrightarrow> ss = filter is_streaming rs"
  by (induction rs arbitrary: ss)
    (auto simp: is_streaming_def split: option.splits sum.splits if_splits)

lemma streaming_filter_total:
  "list_all (\<lambda>s. royalty_type s \<noteq> None) rs \<Longrightarrow>
   streaming_filter rs = Inr (filter is_streaming rs)"
  by (induction rs) (auto simp: is_streaming_def split: option.splits)

text \<open>
  Claim C2. The checks of \<open>calculate_payments_from_data\<close> in their order: a record with
  no Works, or with Works and no RoyaltyShares, fails with the \<open>ValueError\<close> of invalid
  contract data; otherwise an empty statement aggregate fails with the \<open>ValueError\<close> of
  the empty statement; otherwise a record none of whose shares has a royalty type
  containing \<open>streaming\<close> gives the empty list and no error.
\<close>

theorem calculate_payments_from_data_errors:
  "(works cd = [] \<longrightarrow> calculate_payments_from_data cd sh tc pc = Inl no_works_found)
   \<and> (works cd \<noteq> [] \<and> royalty_shares cd = [] \<longrightarrow>
        calculate_payments_from_data cd sh tc pc = Inl no_royalty_share_data)
   \<and> (works cd \<noteq> [] \<and> royalty_shares cd \<noteq> [] \<and> read_royalty_statement sh tc pc = Inr [] \<longrightarrow>
        calculate_payments_from_data cd sh tc pc = Inl no_songs_found)
   \<and> (works cd \<noteq> [] \<and> royalty_shares cd \<noteq> [] \<and>
       read_royalty_statement sh tc pc = Inr totals \<and> totals \<noteq> [] \<and>
       (\<forall>s \<in> set (royalty_shares cd).
          \<exists>t. royalty_type s = Some t \<and> \<not> py_in ''streaming'' (py_lower t)) \<longrightarrow>
        calculate_payments_from_data cd sh tc pc = Inr [])"
proof (intro conjI impI)
  show "calculate_payments_from_data cd sh tc pc = Inl no_works_found" if "works cd = []"
    using that by (simp add: calculate_payments_from_data_def)
  show "calculate_payments_from_data cd sh tc pc = Inl no_royalty_share_data"
    if "works cd \<noteq> [] \<and> royalty_shares cd = []"
    using that by (simp add: calculate_payments_from_data_def)
  show "calculate_payments_from_data cd sh tc pc = Inl no_songs_found"
    if "works cd \<noteq> [] \<and> royalty_shares cd \<noteq> [] \<and> read_royalty_statement sh tc pc = Inr []"
    using that by (simp add: calculate_payments_from_data_def)
  show "calculate_payments_from_data cd sh tc pc = Inr []"
    if h: "works cd \<noteq> [] \<and> royalty_shares cd \<noteq> [] \<and>
       read_royalty_statement sh tc pc = Inr totals \<and> totals \<noteq> [] \<and>
       (\<forall>s \<in> set (royalty_shares cd).
          \<exists>t. royalty_type s = Some t \<and> \<not> py_in ''streaming'' (py_lower t))"
  proof -
    from h have typed: "list_all (\<lambda>s. royalty_type s \<noteq> None) (royalty_shares cd)"
      by (auto simp: list_all_iff)
    from h have "filter is_streaming (royalty_shares cd) = []"
      by (auto simp: filter_empty_conv is_streaming_def)
    with streaming_filter_total [OF typed] h show ?thesis
      by (simp add: calculate_payments_from_data_def)
  qed
qed

lemmas sheet_eval =
  read_royalty_statement_def read_statement_body_def header_cells_def data_rows_def
  find_payable_column_def priority_variations_def general_variations_def
  title_variations_def

lemmas payment_eval =
  calculate_payments_from_data_def calculate_payments_def find_matching_song_def
  make_payment_def new_Party_def new_Work_def new_RoyaltyShare_def new_ContractData_def

text \<open>
  Instances: an empty record, a record with a work and no share, a statement with a
  header row only, and Example 6 of the specification (publishing shares only).
\<close>

theorem calculate_payments_from_data_errors_witness:
  "calculate_payments_from_data (new_ContractData [] [] []) [] None None = Inl no_works_found
   \<and> calculate_payments_from_data (new_ContractData [] [new_Work ''Home'' ''Song''] [])
       [] None None = Inl no_royalty_share_data
   \<and> calculate_payments_from_data
       (new_ContractData [] [new_Work ''Home'' ''Song'']
          [new_RoyaltyShare ''Alice'' ''publishing'' (Finite 50)])
       [[CStr ''Title'', CStr ''Net Payable'']] None None = Inl no_songs_found
   \<and> calculate_payments_from_data
       (new_ContractData [] [new_Work ''Home'' ''Song'']
          [new_RoyaltyShare ''Alice'' ''publishing'' (Finite 50)])
       [[CStr ''Title'', CStr ''Net Payable''], [CStr ''Home'', CNum (Finite 1000) ''1000.0'']]
       None None = Inr []"
proof -
  note ts = calculate_payments_from_data_errors
  let ?cd = "new_ContractData [] [new_Work ''Home'' ''Song'']
          [new_RoyaltyShare ''Alice'' ''publishing'' (Finite 50)]"
  have r0: "read_royalty_statement [[CStr ''Title'', CStr ''Net Payable'']] None None = Inr []"
    by (simp add: sheet_eval string_eval)
  have r1: "read_royalty_statement
      [[CStr ''Title'', CStr ''Net Payable''], [CStr ''Home'', CNum (Finite 1000) ''1000.0'']]
      None None = Inr [(''Home'', Finite 1000)]"
    by (simp add: sheet_eval string_eval float_eval)
  have 1: "calculate_payments_from_data (new_ContractData [] [] []) [] None None
      = Inl no_works_found"
    by (rule ts [THEN conjunct1, rule_format]) (simp add: new_ContractData_def)
  have 2: "calculate_payments_from_data (new_ContractData [] [new_Work ''Home'' ''Song''] [])
       [] None None = Inl no_royalty_share_data"
    by (rule ts [THEN conjunct2, THEN conjunct1, rule_format]) (simp add: new_ContractData_def)
  have 3: "calculate_payments_from_data ?cd [[CStr ''Title'', CStr ''Net Payable'']] None None
      = Inl no_songs_found"
    by (rule ts [THEN conjunct2, THEN conjunct2, THEN conjunct1, rule_format])
      (simp add: new_ContractData_def r0)
  have 4: "calculate_payments_from_data ?cd
       [[CStr ''Title'', CStr ''Net Payable''], [CStr ''Home'', CNum (Finite 1000) ''1000.0'']]
       None None = Inr []"
    by (rule ts [THEN conjunct2, THEN conjunct2, THEN conjunct2, rule_format,
          where totals = "[(''Home'', Finite 1000)]"])
      (simp add: new_ContractData_def new_RoyaltyShare_def r1 string_eval)
  from 1 2 3 4 show ?thesis by simp
qed

section \<open>What the payment loops emit\<close>

lemma make_payment_Inr:
  "make_payment cd w t s = Inr p \<Longrightarrow>
   payment_pair p = work_share_pair w s \<and> total_royalty p = t \<and>
   amount_to_pay p = float_mul t (float_div_100 (percentage s))"
  by (auto simp: make_payment_def payment_pair_def work_share_pair_def Let_def
      split: sum.splits)

lemma share_payments_pairs:
  "share_payments cd w t ss = Inr ps \<Longrightarrow> map payment_pair ps = map (work_share_pair w) ss"
  by (induction ss arbitrary: ps) (auto split: sum.splits dest: make_payment_Inr)

lemma share_payments_amounts:
  "share_payments cd w t ss = Inr ps \<Longrightarrow> p \<in> set ps \<Longrightarrow>
   \<exists>s \<in> set ss. payment_pair p = work_share_pair w s \<and> total_royalty p = t \<and>
     amount_to_pay p = float_mul t (float_div_100 (percentage s))"
  by (induction ss arbitrary: ps) (auto split: sum.splits dest: make_payment_Inr)

lemma exact_match_Some: "exact_match l totals = Some x \<Longrightarrow> x \<in> set totals"
  by (induction totals) (auto split: if_splits)

lemma partial_match_Some: "partial_match l totals = Some x \<Longrightarrow> x \<in> set totals"
  by (induction totals) (auto split: if_splits)

lemma find_matching_song_Some:
  "find_matching_song t totals = (Some x, a) \<Longrightarrow> (x, a) \<in> set totals"
  by (auto simp: find_matching_song_def Let_def split: option.splits
      dest: exact_match_Some partial_match_Some)

lemma truthy_matched:
  "[] \<notin> fst ` set totals \<Longrightarrow>
   truthy (fst (find_matching_song t totals)) = (fst (find_matching_song t totals) \<noteq> None)"
proof (cases "find_matching_song t totals")
  case (Pair m a)
  assume no_blank: "[] \<notin> fst ` set totals"
  show ?thesis
  proof (cases m)
    case None
    with Pair show ?thesis by simp
  next
    case (Some x)
    with Pair have "(x, a) \<in> set totals" by (simp add: find_matching_song_Some)
    with no_blank have "x \<noteq> []" by force
    with Pair Some show ?thesis by simp
  qed
qed

lemma work_payments_pairs:
  "work_payments cd totals ss ws = Inr ps \<Longrightarrow> [] \<notin> fst ` set totals \<Longrightarrow>
   map payment_pair ps =
     concat (map (\<lambda>w. map (work_share_pair w) ss) (filter (matched totals) ws))"
proof (induction ws arbitrary: ps)
  case Nil
  then show ?case by simp
next
  case (Cons w ws)
  from Cons.prems(1) obtain t where t: "title w = Some t"
    by (auto split: option.splits)
  obtain m a where ma: "find_matching_song t totals = (m, a)"
    by (cases "find_matching_song t totals")
  from Cons.prems(1) t ma obtain qs rs
    where qs: "(if truthy m then share_payments cd w a ss else Inr []) = Inr qs"
      and rs: "work_payments cd totals ss ws = Inr rs"
      and ps: "ps = qs @ rs"
    by (auto split: sum.splits)
  have tm: "truthy m = (m \<noteq> None)"
    using truthy_matched [OF Cons.prems(2), of t] ma by simp
  have mw: "matched totals w = (m \<noteq> None)"
    using t ma by (simp add: matched_def)
  have "map payment_pair qs = (if matched totals w then map (work_share_pair w) ss else [])"
    using qs tm mw by (auto dest: share_payments_pairs split: if_splits)
  with Cons.IH [OF rs Cons.prems(2)] ps show ?case by simp
qed

lemma work_payments_amounts:
  "work_payments cd totals ss ws = Inr ps \<Longrightarrow> p \<in> set ps \<Longrightarrow>
   \<exists>w \<in> set ws. \<exists>s \<in> set ss. \<exists>t.
      title w = Some t \<and> payment_pair p = work_share_pair w s \<and>
      total_royalty p = snd (find_matching_song t totals) \<and>
      amount_to_pay p =
        float_mul (snd (find_matching_song t totals)) (float_div_100 (percentage s))"
proof (induction ws arbitrary: ps)
  case Nil
  then show ?case by simp
next
  case (Cons w ws)
  from Cons.prems(1) obtain t where t: "title w = Some t"
    by (auto split: option.splits)
  obtain m a where ma: "find_matching_song t totals = (m, a)"
    by (cases "find_matching_song t totals")
  from Cons.prems(1) t ma obtain qs rs
    where qs: "(if truthy m then share_payments cd w a ss else Inr []) = Inr qs"
      and rs: "work_payments cd totals ss ws = Inr rs"
      and ps: "ps = qs @ rs"
    by (auto split: sum.splits)
  from Cons.prems(2) ps consider "p \<in> set qs" | "p \<in> set rs" by auto
  then show ?case
  proof cases
    case 1
    with qs have sp: "share_payments cd w a ss = Inr qs"
      by (auto split: if_splits)
    from share_payments_amounts [OF sp 1] t ma show ?thesis by auto
  next
    case 2
    from Cons.IH [OF rs 2] show ?thesis by auto
  qed
qed

lemma find_party_total:
  "list_all (\<lambda>p. name p \<noteq> None) ps \<Longrightarrow> pn \<noteq> None \<Longrightarrow> \<exists>r. find_party ps pn = Inr r"
  by (induction ps) (auto split: option.splits)

lemma share_payments_total:
  "list_all (\<lambda>p. name p \<noteq> None) (parties cd) \<Longrightarrow>
   list_all (\<lambda>s. party_name s \<noteq> None) ss \<Longrightarrow>
   \<exists>ps. share_payments cd w t ss = Inr ps"
proof (induction ss)
  case Nil
  then show ?case by simp
next
  case (Cons s ss)
  from Cons.prems obtain r where "find_party (parties cd) (party_name s) = Inr r"
    using find_party_total [of "parties cd" "party_name s"] by auto
  then obtain p where "make_payment cd w t s = Inr p"
    by (simp add: make_payment_def Let_def)
  moreover from Cons obtain ps where "share_payments cd w t ss = Inr ps" by auto
  ultimately show ?case by simp
qed

lemma work_payments_total:
  "list_all (\<lambda>p. name p \<noteq> None) (parties cd) \<Longrightarrow>
   list_all (\<lambda>s. party_name s \<noteq> None) ss \<Longrightarrow>
   list_all (\<lambda>w. title w \<noteq> None) ws \<Longrightarrow>
   \<exists>ps. work_payments cd totals ss ws = Inr ps"
proof (induction ws)
  case Nil
  then show ?case by simp
next
  case (Cons w ws)
  from Cons.prems obtain t where t: "title w = Some t" by auto
  obtain m a where ma: "find_matching_song t totals = (m, a)"
    by (cases "find_matching_song t totals")
  from share_payments_total [OF Cons.prems(1,2)] obtain qs
    where qs: "share_payments cd w a ss = Inr qs" by blast
  from Cons obtain rs where rs: "work_payments cd totals ss ws = Inr rs" by auto
  from t ma qs rs show ?case by simp
qed

lemma streaming_filter_subset:
  "streaming_filter rs = Inr ss \<Longrightarrow> set ss \<subseteq> set rs"
  by (auto dest!: streaming_filter_Inr)

lemma calculators_run:
  assumes "calculate_payments_from_data cd sh tc pc = Inr ps \<or>
           calculate_payments cd sh tc pc = Inr ps"
  shows "\<exists>totals. read_royalty_statement sh tc pc = Inr totals \<and>
           (ps = [] \<and> filter is_streaming (royalty_shares cd) = [] \<or>
            work_payments cd totals (filter is_streaming (royalty_shares cd)) (works cd)
              = Inr ps)"
  using assms
  by (auto simp: calculate_payments_from_data_def calculate_payments_def
      split: if_splits sum.splits dest: streaming_filter_Inr)

text \<open>
  Claim C3, as the code has it. Every payment record that either calculator emits is
  made for a work and a share of the contract record, carries the matched revenue total
  \<open>t\<close> of the work and the percentage \<open>p\<close> of the share, and has
  \<open>amount_to_pay = t * (p / 100.0)\<close> in float arithmetic, the quotient rounded first and
  the product after it, with no rounding to cents. For the statement aggregate
  \<open>{"Home": 1000.0}\<close> and streaming shares Alice 60.0 and Bob 40.0 on work \<open>Home\<close> the
  amounts are 600.0 and 400.0.
\<close>

theorem amount_to_pay_is_total_times_hundredth:
  "((calculate_payments_from_data cd sh tc pc = Inr ps \<or>
     calculate_payments cd sh tc pc = Inr ps) \<and> p \<in> set ps \<longrightarrow>
      (\<exists>totals w s t.
         read_royalty_statement sh tc pc = Inr totals \<and>
         w \<in> set (works cd) \<and> s \<in> set (royalty_shares cd) \<and> title w = Some t \<and>
         payment_pair p = work_share_pair w s \<and>
         total_royalty p = snd (find_matching_song t totals) \<and>
         amount_to_pay p =
           float_mul (snd (find_matching_song t totals)) (float_div_100 (percentage s))))
   \<and> calculate_payments_from_data
       (new_ContractData [] [new_Work ''Home'' ''Song'']
          [new_RoyaltyShare ''Alice'' ''streaming'' (Finite 60),
           new_RoyaltyShare ''Bob'' ''streaming'' (Finite 40)])
       [[CStr ''Title'', CStr ''Net Payable''], [CStr ''Home'', CNum (Finite 1000) ''1000.0'']]
       None None
     = Inr [\<lparr>song_title = Some ''Home'', party_name = Some ''Alice'', role = ''Unknown'',
              royalty_type = Some ''streaming'', percentage = Finite 60,
              total_royalty = Finite 1000, amount_to_pay = Finite 600\<rparr>,
            \<lparr>song_title = Some ''Home'', party_name = Some ''Bob'', role = ''Unknown'',
              royalty_type = Some ''streaming'', percentage = Finite 40,
              total_royalty = Finite 1000, amount_to_pay = Finite 400\<rparr>]"
proof (intro conjI impI)
  assume h: "(calculate_payments_from_data cd sh tc pc = Inr ps \<or>
     calculate_payments cd sh tc pc = Inr ps) \<and> p \<in> set ps"
  then obtain totals where rd: "read_royalty_statement sh tc pc = Inr totals"
    and wp: "work_payments cd totals (filter is_streaming (royalty_shares cd)) (works cd)
              = Inr ps"
    using calculators_run [of cd sh tc pc ps] by auto
  from work_payments_amounts [OF wp] h obtain w s t
    where "w \<in> set (works cd)" "s \<in> set (filter is_streaming (royalty_shares cd))"
      "title w = Some t" "payment_pair p = work_share_pair w s"
      "total_royalty p = snd (find_matching_song t totals)"
      "amount_to_pay p =
        float_mul (snd (find_matching_song t totals)) (float_div_100 (percentage s))"
    by blast
  with rd show "\<exists>totals w s t.
         read_royalty_statement sh tc pc = Inr totals \<and>
         w \<in> set (works cd) \<and> s \<in> set (royalty_shares cd) \<and> title w = Some t \<and>
         payment_pair p = work_share_pair w s \<and>
         total_royalty p = snd (find_matching_song t totals) \<and>
         amount_to_pay p =
           float_mul (snd (find_matching_song t totals)) (float_div_100 (percentage s))"
    by auto
next
  have rd: "read_royalty_statement
      [[CStr ''Title'', CStr ''Net Payable''], [CStr ''Home'', CNum (Finite 1000) ''1000.0'']]
      None None = Inr [(''Home'', Finite 1000)]"
    by (simp add: sheet_eval string_eval float_eval)
  show "calculate_payments_from_data
       (new_ContractData [] [new_Work ''Home'' ''Song'']
          [new_RoyaltyShare ''Alice'' ''streaming'' (Finite 60),
           new_RoyaltyShare ''Bob'' ''streaming'' (Finite 40)])
       [[CStr ''Title'', CStr ''Net Payable''], [CStr ''Home'', CNum (Finite 1000) ''1000.0'']]
       None None
     = Inr [\<lparr>song_title = Some ''Home'', party_name = Some ''Alice'', role = ''Unknown'',
              royalty_type = Some ''streaming'', percentage = Finite 60,
              total_royalty = Finite 1000, amount_to_pay = Finite 600\<rparr>,
            \<lparr>song_title = Some ''Home'', party_name = Some ''Bob'', role = ''Unknown'',
              royalty_type = Some ''streaming'', percentage = Finite 40,
              total_royalty = Finite 1000, amount_to_pay = Finite 400\<rparr>]"
    by (simp add: payment_eval rd string_eval float_eval)
qed

text \<open>
  The claim as stated, \<open>amount_to_pay == t * p / 100.0\<close>, fails for \<open>t = 3.0\<close> and
  \<open>p = 7.0\<close>: the code pays \<open>3.0 * (7.0 / 100.0) = 0.21000000000000002\<close>, while
  \<open>3.0 * 7.0 / 100.0 = 0.21\<close>.
\<close>

theorem amount_to_pay_counterexample:
  "calculate_payments_from_data
       (new_ContractData [] [new_Work ''Home'' ''Song'']
          [new_RoyaltyShare ''Alice'' ''streaming'' (Finite 7)])
       [[CStr ''Title'', CStr ''Net Payable''], [CStr ''Home'', CNum (Finite 3) ''3.0'']]
       None None
     = Inr [\<lparr>song_title = Some ''Home'', party_name = Some ''Alice'', role = ''Unknown'',
              royalty_type = Some ''streaming'', percentage = Finite 7,
              total_royalty = Finite 3,
              amount_to_pay = Finite (3783023686991217 / 18014398509481984)\<rparr>]
   \<and> float_div_100 (float_mul (Finite 3) (Finite 7))
     = Finite (7566047373982433 / 36028797018963968)
   \<and> Finite (3783023686991217 / 18014398509481984)
     \<noteq> float_div_100 (float_mul (Finite 3) (Finite 7))"
proof -
  have rd: "read_royalty_statement
      [[CStr ''Title'', CStr ''Net Payable''], [CStr ''Home'', CNum (Finite 3) ''3.0'']]
      None None = Inr [(''Home'', Finite 3)]"
    by (simp add: sheet_eval string_eval float_eval)
  show ?thesis
    by (simp add: payment_eval rd string_eval float_eval)
qed

text \<open>
  An instance through \<open>calculate_payments\<close>: one share of 25 percent of 1000.
\<close>

theorem amount_to_pay_is_total_times_hundredth_witness:
  "calculate_payments
       (new_ContractData [new_Party ''alice'' ''writer''] [new_Work ''Home'' ''Song'']
          [new_RoyaltyShare ''Alice'' ''Streaming'' (Finite 25)])
       [[CStr ''Title'', CStr ''Net Payable''], [CStr ''home'', CNum (Finite 1000) ''1000'']]
       None None
     = Inr [\<lparr>song_title = Some ''Home'', party_name = Some ''Alice'', role = ''writer'',
              royalty_type = Some ''Streaming'', percentage = Finite 25,
              total_royalty = Finite 1000, amount_to_pay = Finite 250\<rparr>]
   \<and> (\<exists>t. Finite 250 = float_mul t (float_div_100 (Finite 25)))"
proof -
  let ?cd = "new_ContractData [new_Party ''alice'' ''writer''] [new_Work ''Home'' ''Song'']
          [new_RoyaltyShare ''Alice'' ''Streaming'' (Finite 25)]"
  let ?sh = "[[CStr ''Title'', CStr ''Net Payable''], [CStr ''home'', CNum (Finite 1000) ''1000'']]"
  let ?p = "\<lparr>song_title = Some ''Home'', party_name = Some ''Alice'', role = ''writer'',
              royalty_type = Some ''Streaming'', percentage = Finite 25,
              total_royalty = Finite 1000, amount_to_pay = Finite 250\<rparr>"
  have rd: "read_royalty_statement ?sh None None = Inr [(''home'', Finite 1000)]"
    by (simp add: sheet_eval string_eval float_eval)
  have run: "calculate_payments ?cd ?sh None None = Inr [?p]"
    by (simp add: payment_eval rd string_eval float_eval)
  have pre: "(calculate_payments_from_data ?cd ?sh None None = Inr [?p] \<or>
     calculate_payments ?cd ?sh None None = Inr [?p]) \<and> ?p \<in> set [?p]"
    using run by simp
  from amount_to_pay_is_total_times_hundredth [THEN conjunct1, rule_format, OF pre]
  obtain totals w s t where "s \<in> set (royalty_shares ?cd)"
    and "amount_to_pay ?p =
           float_mul (snd (find_matching_song t totals)) (float_div_100 (percentage s))"
    by blast
  then have "\<exists>t. Finite 250 = float_mul t (float_div_100 (Finite 25))"
    by (auto simp: new_ContractData_def new_RoyaltyShare_def)
  with run show ?thesis by simp
qed

lemma length_concat_product:
  "length (concat (map (\<lambda>w. map (f w) ss) ws)) = length ws * length ss"
  by (induction ws) simp_all

text \<open>
  Claim C10, as the code has it. When no title of the statement aggregate is the empty
  string, the payment records that either calculator returns are, in order, one for every
  pair of a Work that the song matcher matches and a streaming RoyaltyShare, so their
  number is the number of matched works times the number of streaming shares, whichever
  contract a share came from. For a record that meets the preconditions and has its text
  fields present, and a non-empty aggregate, \<open>calculate_payments_from_data\<close> does
  return.
\<close>

theorem payments_pair_matched_works_with_streaming_shares:
  "((calculate_payments_from_data cd sh tc pc = Inr ps \<or>
     calculate_payments cd sh tc pc = Inr ps) \<and>
    read_royalty_statement sh tc pc = Inr totals \<and> [] \<notin> fst ` set totals \<longrightarrow>
      map payment_pair ps =
        concat (map (\<lambda>w. map (work_share_pair w) (filter is_streaming (royalty_shares cd)))
                  (filter (matched totals) (works cd))) \<and>
      length ps = length (filter (matched totals) (works cd)) *
                  length (filter is_streaming (royalty_shares cd)))
   \<and> (text_fields_present cd \<and> works cd \<noteq> [] \<and> royalty_shares cd \<noteq> [] \<and>
      read_royalty_statement sh tc pc = Inr totals \<and> totals \<noteq> [] \<longrightarrow>
      (\<exists>ps. calculate_payments_from_data cd sh tc pc = Inr ps))"
proof (intro conjI impI)
  assume h: "(calculate_payments_from_data cd sh tc pc = Inr ps \<or>
     calculate_payments cd sh tc pc = Inr ps) \<and>
    read_royalty_statement sh tc pc = Inr totals \<and> [] \<notin> fst ` set totals"
  let ?ss = "filter is_streaming (royalty_shares cd)"
  let ?ws = "filter (matched totals) (works cd)"
  from h calculators_run [of cd sh tc pc ps]
  have "ps = [] \<and> ?ss = [] \<or> work_payments cd totals ?ss (works cd) = Inr ps"
    by auto
  then have pairs: "map payment_pair ps = concat (map (\<lambda>w. map (work_share_pair w) ?ss) ?ws)"
  proof
    assume "ps = [] \<and> ?ss = []"
    then show ?thesis by simp
  next
    assume "work_payments cd totals ?ss (works cd) = Inr ps"
    from work_payments_pairs [OF this] h show ?thesis by simp
  qed
  then show "map payment_pair ps = concat (map (\<lambda>w. map (work_share_pair w) ?ss) ?ws)" .
  from pairs have "length (map payment_pair ps) =
      length (concat (map (\<lambda>w. map (work_share_pair w) ?ss) ?ws))"
    by simp
  then show "length ps = length ?ws * length ?ss"
    by (simp only: length_map length_concat_product)
next
  assume h: "text_fields_present cd \<and> works cd \<noteq> [] \<and> royalty_shares cd \<noteq> [] \<and>
      read_royalty_statement sh tc pc = Inr totals \<and> totals \<noteq> []"
  let ?ss = "filter is_streaming (royalty_shares cd)"
  from h have typed: "list_all (\<lambda>s. royalty_type s \<noteq> None) (royalty_shares cd)"
    and named: "list_all (\<lambda>s. party_name s \<noteq> None) ?ss"
    and parties: "list_all (\<lambda>p. name p \<noteq> None) (parties cd)"
    and titled: "list_all (\<lambda>w. title w \<noteq> None) (works cd)"
    by (auto simp: text_fields_present_def list_all_iff)
  from work_payments_total [OF parties named titled] obtain ps
    where "work_payments cd totals ?ss (works cd) = Inr ps" by blast
  with h streaming_filter_total [OF typed]
  show "\<exists>ps. calculate_payments_from_data cd sh tc pc = Inr ps"
    by (simp add: calculate_payments_from_data_def)
qed

text \<open>
  An instance: three works of which two are in the statement, three shares of which two
  are streaming shares, four payment records.
\<close>

theorem payments_pair_matched_works_with_streaming_shares_witness:
  "\<exists>ps. calculate_payments_from_data
          (new_ContractData []
             [new_Work ''Home'' ''Song'', new_Work ''Nowhere'' ''Song'', new_Work ''Away'' ''Song'']
             [new_RoyaltyShare ''Alice'' ''streaming'' (Finite 60),
              new_RoyaltyShare ''Bob'' ''publishing'' (Finite 40),
              new_RoyaltyShare ''Carol'' ''Streaming (US)'' (Finite 10)])
          [[CStr ''Title'', CStr ''Net Payable''],
           [CStr ''Home'', CNum (Finite 1000) ''1000''],
           [CStr ''Away'', CNum (Finite 500) ''500'']]
          None None = Inr ps
      \<and> length ps = 4
      \<and> map payment_pair ps =
          [(Some ''Home'', Some ''Alice'', Some ''streaming'', Finite 60),
           (Some ''Home'', Some ''Carol'', Some ''Streaming (US)'', Finite 10),
           (Some ''Away'', Some ''Alice'', Some ''streaming'', Finite 60),
           (Some ''Away'', Some ''Carol'', Some ''Streaming (US)'', Finite 10)]"
proof -
  let ?cd = "new_ContractData []
             [new_Work ''Home'' ''Song'', new_Work ''Nowhere'' ''Song'', new_Work ''Away'' ''Song'']
             [new_RoyaltyShare ''Alice'' ''streaming'' (Finite 60),
              new_RoyaltyShare ''Bob'' ''publishing'' (Finite 40),
              new_RoyaltyShare ''Carol'' ''Streaming (US)'' (Finite 10)]"
  let ?sh = "[[CStr ''Title'', CStr ''Net Payable''],
           [CStr ''Home'', CNum (Finite 1000) ''1000''],
           [CStr ''Away'', CNum (Finite 500) ''500'']]"
  let ?totals = "[(''Home'', Finite 1000), (''Away'', Finite 500)]"
  note ts = payments_pair_matched_works_with_streaming_shares
  have rd: "read_royalty_statement ?sh None None = Inr ?totals"
    by (simp add: sheet_eval string_eval float_eval)
  have pre: "text_fields_present ?cd \<and> works ?cd \<noteq> [] \<and> royalty_shares ?cd \<noteq> [] \<and>
      read_royalty_statement ?sh None None = Inr ?totals \<and> ?totals \<noteq> []"
    by (simp add: rd text_fields_present_def new_ContractData_def new_Work_def
        new_RoyaltyShare_def)
  from ts [THEN conjunct2, rule_format, OF pre] obtain ps
    where run: "calculate_payments_from_data ?cd ?sh None None = Inr ps"
    by blast
  have pre': "(calculate_payments_from_data ?cd ?sh None None = Inr ps \<or>
     calculate_payments ?cd ?sh None None = Inr ps) \<and>
    read_royalty_statement ?sh None None = Inr ?totals \<and> [] \<notin> fst ` set ?totals"
    using run rd by simp
  have ws: "filter (matched ?totals) (works ?cd)
      = [new_Work ''Home'' ''Song'', new_Work ''Away'' ''Song'']"
    by (simp add: matched_def find_matching_song_def new_ContractData_def new_Work_def
        string_eval)
  have ss: "filter is_streaming (royalty_shares ?cd)
      = [new_RoyaltyShare ''Alice'' ''streaming'' (Finite 60),
         new_RoyaltyShare ''Carol'' ''Streaming (US)'' (Finite 10)]"
    by (simp add: is_streaming_def new_ContractData_def new_RoyaltyShare_def string_eval)
  from ts [THEN conjunct1, rule_format, OF pre', unfolded ws ss]
  have pairs: "map payment_pair ps =
          [(Some ''Home'', Some ''Alice'', Some ''streaming'', Finite 60),
           (Some ''Home'', Some ''Carol'', Some ''Streaming (US)'', Finite 10),
           (Some ''Away'', Some ''Alice'', Some ''streaming'', Finite 60),
           (Some ''Away'', Some ''Carol'', Some ''Streaming (US)'', Finite 10)]"
    and len: "length ps = 4"
    by (simp_all add: work_share_pair_def new_Work_def new_RoyaltyShare_def)
  show ?thesis
    by (rule exI [of _ ps]) (rule conjI [OF run conjI [OF len pairs]])
qed

text \<open>
  The claim for every non-empty aggregate fails when a title cell of the statement holds
  blanks only: the aggregate then has the empty title, the song matcher returns it for
  the work \<open>Home\<close> (the empty string is a substring of every title), and the calculator,
  testing the truth value of the returned title, emits no record for the matched work.
\<close>

theorem blank_statement_title_counterexample:
  "read_royalty_statement
     [[CStr ''Title'', CStr ''Net Payable''], [CStr ''  '', CNum (Finite 5) ''5.0'']]
     None None = Inr [([], Finite 5)]
   \<and> find_matching_song ''Home'' [([], Finite 5)] = (Some [], Finite 5)
   \<and> matched [([], Finite 5)] (new_Work ''Home'' ''Song'')
   \<and> is_streaming (new_RoyaltyShare ''Alice'' ''streaming'' (Finite 50))
   \<and> calculate_payments_from_data
       (new_ContractData [] [new_Work ''Home'' ''Song'']
          [new_RoyaltyShare ''Alice'' ''streaming'' (Finite 50)])
       [[CStr ''Title'', CStr ''Net Payable''], [CStr ''  '', CNum (Finite 5) ''5.0'']]
       None None = Inr []"
proof -
  have rd: "read_royalty_statement
     [[CStr ''Title'', CStr ''Net Payable''], [CStr ''  '', CNum (Finite 5) ''5.0'']]
     None None = Inr [([], Finite 5)]"
    by (simp add: sheet_eval string_eval float_eval)
  show ?thesis
    by (simp add: rd payment_eval matched_def is_streaming_def string_eval)
qed

section \<open>Blank header cells\<close>

lemma drop_underscores_Home: "drop_underscores None ''Home'' = Some ''Home''"
  by (simp add: is_digit_def)
lemma parse_decimal_Home: "parse_decimal ''Home'' = None"
  by (simp add: parse_decimal_def is_digit_def)
lemma float_of_string_Home: "float_of_string ''Home'' = None"
  by (simp add: float_of_string_def drop_underscores_Home parse_decimal_Home string_eval
      del: drop_underscores.simps)
text \<open>
  Claim C7 does not hold of the code. The header list leaves blank header cells out, and
  the positions of the detected columns in that shortened list are used to index the
  full data rows: with a blank header cell before the title column the title is read
  from the blank column and the payable amount from the title column; with a blank header
  cell between title and payable column the amount is read from the column under the
  blank header.
\<close>

theorem blank_header_cell_shifts_columns:
  "read_royalty_statement
     [[CStr ''Title'', CStr ''Net Payable''],
      [CStr ''Home'', CNum (Finite 1000) ''1000.0'']]
     None None = Inr [(''Home'', Finite 1000)]
   \<and> read_royalty_statement
     [[CNone, CStr ''Title'', CStr ''Net Payable''],
      [CNone, CStr ''Home'', CNum (Finite 1000) ''1000.0'']]
     None None = Inr []
   \<and> read_royalty_statement
     [[CNone, CStr ''Title'', CStr ''Net Payable''],
      [CStr ''A-17'', CStr ''Home'', CNum (Finite 1000) ''1000.0'']]
     None None = Inr []
   \<and> read_royalty_statement
     [[CStr ''Title'', CNone, CStr ''Net Payable''],
      [CStr ''Home'', CNum (Finite 3) ''3'', CNum (Finite 1000) ''1000.0'']]
     None None = Inr [(''Home'', Finite 3)]"
  by (simp add: sheet_eval string_eval float_eval float_of_string_Home)

end
